theory Spec2Isabelle
  imports Complex_Main "HOL-Library.Log_Nat" "HOL-Library.AList"
    "HOL-Library.List_Lexorder" "HOL-Library.Char_ord"
begin

section \<open>Python values used by the currency service\<close>

subsection \<open>Floats\<close>

text \<open>
  A Python \<^verbatim>\<open>float\<close> is an IEEE 754 binary64 number. A finite one is given by its exact
  rational value; the two zeros are identified (they compare equal, both are falsy and
  both raise on division). Every arithmetic result is rounded to the nearest double,
  ties to even, by \<open>round_to_double\<close>.
\<close>

datatype pyfloat = Finite rat | PosInf | NegInf | NaN

definition round_half_even :: "rat \<Rightarrow> int" where
  "round_half_even x =
     (let f = \<lfloor>x\<rfloor>; d = x - of_int f
      in if d < 1 / 2 then f else if 1 / 2 < d then f + 1 else if even f then f else f + 1)"

text \<open>The binary exponent of a positive rational: \<open>2 powi ilog2 a \<le> a < 2 powi (ilog2 a + 1)\<close>.\<close>

definition ilog2 :: "rat \<Rightarrow> int" where
  "ilog2 a =
     (let (p, q) = quotient_of a; d = bitlen p - bitlen q
      in if 2 powi d \<le> a then d else d - 1)"

text \<open>
  53 significant bits, least exponent \<open>-1022\<close> (below it the spacing stays \<open>2 powi - 1074\<close>:
  subnormals), overflow to an infinity from \<open>2 powi 1024\<close> on.
\<close>

definition round_to_double :: "rat \<Rightarrow> pyfloat" where
  "round_to_double q =
     (if q = 0 then Finite 0
      else let a = \<bar>q\<bar>;
               e = max (ilog2 a) (- 1022);
               u = 2 powi (e - 52);
               r = of_int (round_half_even (a / u)) * u
           in if 2 powi 1024 \<le> r then (if 0 < q then PosInf else NegInf)
              else Finite (sgn q * r))"

datatype py_error =
    Exception string
  | ValueError string
  | TypeError
  | ZeroDivisionError
  | OverflowError
  | IntegrityError
  | RequestError
  | HTTPStatusError
  | ParseError

text \<open>\<^verbatim>\<open>x * y\<close> on floats: never raises, overflows to an infinity.\<close>

fun py_mul :: "pyfloat \<Rightarrow> pyfloat \<Rightarrow> pyfloat" where
  "py_mul (Finite x) (Finite y) = round_to_double (x * y)"
| "py_mul NaN y = NaN"
| "py_mul x NaN = NaN"
| "py_mul (Finite x) PosInf = (if x = 0 then NaN else if 0 < x then PosInf else NegInf)"
| "py_mul (Finite x) NegInf = (if x = 0 then NaN else if 0 < x then NegInf else PosInf)"
| "py_mul PosInf (Finite y) = (if y = 0 then NaN else if 0 < y then PosInf else NegInf)"
| "py_mul NegInf (Finite y) = (if y = 0 then NaN else if 0 < y then NegInf else PosInf)"
| "py_mul PosInf PosInf = PosInf"
| "py_mul PosInf NegInf = NegInf"
| "py_mul NegInf PosInf = NegInf"
| "py_mul NegInf NegInf = PosInf"

text \<open>\<^verbatim>\<open>x / y\<close> on floats: a zero divisor raises, whatever the dividend.\<close>

fun py_truediv :: "pyfloat \<Rightarrow> pyfloat \<Rightarrow> py_error + pyfloat" where
  "py_truediv x (Finite y) =
     (if y = 0 then Inl ZeroDivisionError
      else case x of
             Finite x' \<Rightarrow> Inr (round_to_double (x' / y))
           | PosInf \<Rightarrow> Inr (if 0 < y then PosInf else NegInf)
           | NegInf \<Rightarrow> Inr (if 0 < y then NegInf else PosInf)
           | NaN \<Rightarrow> Inr NaN)"
| "py_truediv x NaN = Inr NaN"
| "py_truediv (Finite x) PosInf = Inr (Finite 0)"
| "py_truediv (Finite x) NegInf = Inr (Finite 0)"
| "py_truediv x y = Inr NaN"

text \<open>\<^verbatim>\<open>float(n)\<close> for an \<^verbatim>\<open>int\<close>: correctly rounded, \<^verbatim>\<open>OverflowError\<close> when out of range.\<close>

definition float_of_int :: "int \<Rightarrow> py_error + pyfloat" where
  "float_of_int n =
     (case round_to_double (of_int n) of
        Finite r \<Rightarrow> Inr (Finite r)
      | _ \<Rightarrow> Inl OverflowError)"

text \<open>\<^verbatim>\<open>x / n\<close> for a float \<^verbatim>\<open>x\<close> and an int \<^verbatim>\<open>n\<close>: the int is converted first.\<close>

definition py_truediv_int :: "pyfloat \<Rightarrow> int \<Rightarrow> py_error + pyfloat" where
  "py_truediv_int x n =
     (case float_of_int n of Inl e \<Rightarrow> Inl e | Inr y \<Rightarrow> py_truediv x y)"

text \<open>
  \<^verbatim>\<open>round(x, 2)\<close>: infinities and NaN round to themselves; a finite float is rounded to
  two decimals, ties to even, on its exact value, and the decimal is converted back to
  the nearest double.
\<close>

fun py_round2 :: "pyfloat \<Rightarrow> pyfloat" where
  "py_round2 (Finite x) = round_to_double (of_int (round_half_even (x * 100)) / 100)"
| "py_round2 x = x"

text \<open>Truthiness of a float (\<^verbatim>\<open>if rate_value\<close>): false exactly for zero; NaN is truthy.\<close>

definition float_truthy :: "pyfloat \<Rightarrow> bool" where
  "float_truthy x = (x \<noteq> Finite 0)"

subsection \<open>Element trees\<close>

text \<open>
  An \<^verbatim>\<open>xml.etree.ElementTree.Element\<close>: tag (with its namespace in braces), attributes,
  text (\<^verbatim>\<open>None\<close> when the element has none) and children.
\<close>

datatype xml =
  Element (tag: string) (attrib: "(string \<times> string) list") (elem_text: "string option")
    (children: "xml list")

text \<open>The elements strictly below an element, in document order (the path \<^verbatim>\<open>.//\<close>).\<close>

fun descendants :: "xml \<Rightarrow> xml list" where
  "descendants (Element t a x cs) = concat (map (\<lambda>c. c # descendants c) cs)"

definition findall :: "xml \<Rightarrow> string \<Rightarrow> xml list" where
  "findall e t = filter (\<lambda>d. tag d = t) (descendants e)"

definition find_elem :: "xml \<Rightarrow> string \<Rightarrow> xml option" where
  "find_elem e t = (case findall e t of [] \<Rightarrow> None | d # _ \<Rightarrow> Some d)"

definition get_attr :: "xml \<Rightarrow> string \<Rightarrow> string option" where
  "get_attr e k = map_of (attrib e) k"

definition get_attr_default :: "xml \<Rightarrow> string \<Rightarrow> string \<Rightarrow> string" where
  "get_attr_default e k d = (case get_attr e k of None \<Rightarrow> d | Some v \<Rightarrow> v)"

subsection \<open>Library functions taken as parameters\<close>

text \<open>
  \<^verbatim>\<open>ET.fromstring\<close>, \<^verbatim>\<open>int\<close> and \<^verbatim>\<open>float\<close> on strings are library code; each is a
  parameter, \<open>None\<close> where the library function raises.
\<close>

record pylib =
  fromstring :: "string \<Rightarrow> xml option"
  int_of_str :: "string \<Rightarrow> int option"
  float_of_str :: "string \<Rightarrow> pyfloat option"

text \<open>
  The outcome of \<^verbatim>\<open>client.get\<close>: the request raises (timeout, connection error), or a
  response arrives with a status code and a body.
\<close>

datatype http_result = RequestFailed | Response int string

text \<open>\<^verbatim>\<open>response.raise_for_status()\<close> of httpx raises unless the status is 2xx.\<close>

definition is_success :: "int \<Rightarrow> bool" where
  "is_success status = (200 \<le> status \<and> status \<le> 299)"

section \<open>The currency service\<close>

subsection \<open>fetch_bnr_rates\<close>

text \<open>The values of the \<^verbatim>\<open>exchange_rates\<close> dict: \<^verbatim>\<open>{"rate": ..., "date": ...}\<close>.\<close>

record rate_entry =
  rate :: pyfloat
  date :: string

text \<open>
  The dict returned by \<^verbatim>\<open>fetch_bnr_rates\<close>; its key \<^verbatim>\<open>"date"\<close> is the field \<open>rate_date\<close>.
  A dict that is iterated is an association list in insertion order (\<open>AList.update\<close>
  overwrites in place, as a dict does).
\<close>

record bnr_data =
  exchangeRates :: "(string \<times> rate_entry) list"
  rate_date :: string

definition CubeTag :: string where
  "CubeTag = ''{http://www.bnr.ro/xsd}Cube''"

definition RateTag :: string where
  "RateTag = ''{http://www.bnr.ro/xsd}Rate''"

definition fetch_failed :: py_error where
  "fetch_failed = Exception ''Failed to fetch exchange rates from BNR''"

text \<open>The body of the loop over the \<^verbatim>\<open>Rate\<close> elements.\<close>

definition parse_rate ::
  "pylib \<Rightarrow> string \<Rightarrow> (string \<times> rate_entry) list \<Rightarrow> xml \<Rightarrow> py_error + (string \<times> rate_entry) list"
where
  "parse_rate L rdate exchange_rates rate_elem =
     (let currency_code = get_attr rate_elem ''currency'' in
      case int_of_str L (get_attr_default rate_elem ''multiplier'' ''1'') of
        None \<Rightarrow> Inl (ValueError ''invalid literal for int()'')
      | Some multiplier \<Rightarrow>
          (case elem_text rate_elem of
             None \<Rightarrow> Inl TypeError
           | Some t \<Rightarrow>
               (case float_of_str L t of
                  None \<Rightarrow> Inl (ValueError ''could not convert string to float'')
                | Some rate_value \<Rightarrow>
                    (case currency_code of
                       None \<Rightarrow> Inr exchange_rates
                     | Some code \<Rightarrow>
                         if code \<noteq> [] \<and> float_truthy rate_value then
                           (case py_truediv_int rate_value multiplier of
                              Inl e \<Rightarrow> Inl e
                            | Inr r \<Rightarrow>
                                Inr (AList.update code \<lparr>rate = r, date = rdate\<rparr> exchange_rates))
                         else Inr exchange_rates))))"

fun parse_rates ::
  "pylib \<Rightarrow> string \<Rightarrow> (string \<times> rate_entry) list \<Rightarrow> xml list \<Rightarrow> py_error + (string \<times> rate_entry) list"
where
  "parse_rates L rdate exchange_rates [] = Inr exchange_rates"
| "parse_rates L rdate exchange_rates (rate_elem # rest) =
     (case parse_rate L rdate exchange_rates rate_elem of
        Inl e \<Rightarrow> Inl e
      | Inr exchange_rates' \<Rightarrow> parse_rates L rdate exchange_rates' rest)"

text \<open>
  The \<^verbatim>\<open>try\<close> block. \<open>now\<close> is \<^verbatim>\<open>datetime.now().strftime("%Y-%m-%d")\<close>, the default of the
  \<^verbatim>\<open>date\<close> attribute.
\<close>

definition fetch_bnr_rates_try :: "pylib \<Rightarrow> string \<Rightarrow> http_result \<Rightarrow> py_error + bnr_data" where
  "fetch_bnr_rates_try L now resp =
     (case resp of
        RequestFailed \<Rightarrow> Inl RequestError
      | Response status body \<Rightarrow>
          if \<not> is_success status then Inl HTTPStatusError
          else (case fromstring L body of
                  None \<Rightarrow> Inl ParseError
                | Some root_elem \<Rightarrow>
                    (case find_elem root_elem CubeTag of
                       None \<Rightarrow> Inl (ValueError ''Invalid response format from BNR API'')
                     | Some cube \<Rightarrow>
                         (let rdate = get_attr_default cube ''date'' now in
                          case parse_rates L rdate
                                 [(''RON'', \<lparr>rate = Finite 1, date = rdate\<rparr>)]
                                 (findall cube RateTag) of
                            Inl e \<Rightarrow> Inl e
                          | Inr exchange_rates \<Rightarrow>
                              Inr \<lparr>exchangeRates = exchange_rates, rate_date = rdate\<rparr>))))"

text \<open>\<^verbatim>\<open>except Exception\<close>: every error of the block is replaced by one exception.\<close>

definition fetch_bnr_rates :: "pylib \<Rightarrow> string \<Rightarrow> http_result \<Rightarrow> py_error + bnr_data" where
  "fetch_bnr_rates L now resp =
     (case fetch_bnr_rates_try L now resp of
        Inl e \<Rightarrow> Inl fetch_failed
      | Inr r \<Rightarrow> Inr r)"

subsection \<open>The exchange_rates table\<close>

text \<open>
  The column \<^verbatim>\<open>date\<close> is declared \<^verbatim>\<open>DATE\<close>, which gives it NUMERIC affinity: a text that
  is a well-formed integer or real literal is stored as a number, any other text as it
  is. The same conversion is applied to the text a row's date is compared with. What
  comes back from the column is therefore a number or a text. The test for a literal,
  with the number it denotes, is SQLite's; it is the parameter \<open>lit\<close> (\<open>None\<close>: not a
  literal), and \<open>'n\<close> is the type of SQLite's numbers in their numeric order.
\<close>

datatype 'n date_value = Number 'n | Text string

definition numeric_affinity :: "(string \<Rightarrow> 'n option) \<Rightarrow> string \<Rightarrow> 'n date_value" where
  "numeric_affinity lit t = (case lit t of Some n \<Rightarrow> Number n | None \<Rightarrow> Text t)"

text \<open>
  The order of \<^verbatim>\<open>MAX\<close> and \<^verbatim>\<open>ORDER BY\<close>: every number is below every text, numbers are
  ordered by value, texts byte by byte.
\<close>

instantiation date_value :: (linorder) linorder
begin

definition less_eq_date_value :: "'a date_value \<Rightarrow> 'a date_value \<Rightarrow> bool" where
  "less_eq_date_value a b =
     (case a of
        Number x \<Rightarrow> (case b of Number y \<Rightarrow> x \<le> y | Text t \<Rightarrow> True)
      | Text u \<Rightarrow> (case b of Number y \<Rightarrow> False | Text t \<Rightarrow> u \<le> t))"

definition less_date_value :: "'a date_value \<Rightarrow> 'a date_value \<Rightarrow> bool" where
  "less_date_value a b = (a \<le> b \<and> \<not> b \<le> a)"

instance
proof
  fix a b c :: "'a date_value"
  show "(a < b) = (a \<le> b \<and> \<not> b \<le> a)"
    by (simp add: less_date_value_def)
  show "a \<le> a"
    by (simp add: less_eq_date_value_def split: date_value.splits)
  show "a \<le> b \<Longrightarrow> b \<le> c \<Longrightarrow> a \<le> c"
    by (auto simp add: less_eq_date_value_def split: date_value.splits)
  show "a \<le> b \<Longrightarrow> b \<le> a \<Longrightarrow> a = b"
    by (auto simp add: less_eq_date_value_def split: date_value.splits)
  show "a \<le> b \<or> b \<le> a"
    by (auto simp add: less_eq_date_value_def split: date_value.splits)
qed

end

text \<open>
  A row of the table \<^verbatim>\<open>exchange_rates\<close> (columns \<^verbatim>\<open>currency_code\<close>, \<^verbatim>\<open>rate\<close>, \<^verbatim>\<open>date\<close>); the
  table is the list of its rows in insertion order.
\<close>

record 'n rate_row =
  currency_code :: string
  row_rate :: pyfloat
  row_date :: "'n date_value"

type_synonym 'n store = "'n rate_row list"

text \<open>\<^verbatim>\<open>INSERT OR REPLACE\<close> under \<^verbatim>\<open>UNIQUE(currency_code, date)\<close>.\<close>

definition insert_or_replace :: "'n store \<Rightarrow> 'n rate_row \<Rightarrow> 'n store" where
  "insert_or_replace s r =
     filter (\<lambda>x. \<not> (currency_code x = currency_code r \<and> row_date x = row_date r)) s @ [r]"

text \<open>
  The loop of \<^verbatim>\<open>save_rates_to_database\<close>. The column \<^verbatim>\<open>rate\<close> is \<^verbatim>\<open>REAL NOT NULL\<close> and a NaN
  is bound as \<^verbatim>\<open>NULL\<close>, so the \<^verbatim>\<open>INSERT\<close> of a NaN rate raises \<^verbatim>\<open>sqlite3.IntegrityError\<close>;
  every other float is stored as it is.
\<close>

fun insert_rates ::
  "(string \<Rightarrow> 'n option) \<Rightarrow> (string \<times> rate_entry) list \<Rightarrow> string \<Rightarrow> 'n store \<Rightarrow> py_error + 'n store"
where
  "insert_rates lit [] rdate s = Inr s"
| "insert_rates lit ((currency, rate_value) # rest) rdate s =
     (if rate rate_value = NaN then Inl IntegrityError
      else insert_rates lit rest rdate
             (insert_or_replace s
                \<lparr>currency_code = currency, row_rate = rate rate_value,
                 row_date = numeric_affinity lit rdate\<rparr>))"

text \<open>
  The rows are committed after the loop. When an \<^verbatim>\<open>INSERT\<close> raises, the connection is
  closed without a commit: the result \<open>Inl\<close> stands for the exception with the table as
  it was before the call. Any other failure of the database (a locked or missing file)
  is not part of the model.
\<close>

definition save_rates_to_database ::
  "(string \<Rightarrow> 'n option) \<Rightarrow> (string \<times> rate_entry) list \<Rightarrow> string \<Rightarrow> 'n store \<Rightarrow> py_error + 'n store"
where
  "save_rates_to_database lit rates_dict rdate s = insert_rates lit rates_dict rdate s"

text \<open>The loop \<^verbatim>\<open>for row in rows: rates[row["currency_code"]] = row["rate"]\<close>.\<close>

definition rates_of_rows :: "'n rate_row list \<Rightarrow> (string \<rightharpoonup> pyfloat)" where
  "rates_of_rows rows = fold (\<lambda>row rates. rates(currency_code row \<mapsto> row_rate row)) rows Map.empty"

text \<open>\<^verbatim>\<open>SELECT currency_code, rate FROM exchange_rates WHERE date = ?\<close>.\<close>

definition get_cached_rates ::
  "(string \<Rightarrow> 'n option) \<Rightarrow> 'n store \<Rightarrow> string \<Rightarrow> (string \<rightharpoonup> pyfloat) option"
where
  "get_cached_rates lit s rdate =
     (let rows = filter (\<lambda>r. row_date r = numeric_affinity lit rdate) s
      in if rows = [] then None else Some (rates_of_rows rows))"

text \<open>\<^verbatim>\<open>SELECT MAX(date) FROM exchange_rates\<close>: \<^verbatim>\<open>NULL\<close> on the empty table.\<close>

fun max_date :: "('n::linorder) store \<Rightarrow> 'n date_value option" where
  "max_date [] = None"
| "max_date (r # rs) =
     (case max_date rs of None \<Rightarrow> Some (row_date r) | Some m \<Rightarrow> Some (max (row_date r) m))"

text \<open>\<^verbatim>\<open>... WHERE date = (SELECT MAX(date) FROM exchange_rates)\<close>.\<close>

definition latest_rows :: "('n::linorder) store \<Rightarrow> 'n rate_row list" where
  "latest_rows s =
     (case max_date s of None \<Rightarrow> [] | Some m \<Rightarrow> filter (\<lambda>r. row_date r = m) s)"

subsection \<open>get_latest_rates\<close>

text \<open>
  The dict returned by \<^verbatim>\<open>get_latest_rates\<close>; its key \<^verbatim>\<open>"date"\<close> is the field \<open>rates_date\<close>:
  a Python \<^verbatim>\<open>str\<close> (\<open>Text\<close>) on the first two paths, and what the column \<^verbatim>\<open>date\<close> gives
  back on the last.
\<close>

record 'n latest_rates =
  rates :: "string \<rightharpoonup> pyfloat"
  rates_date :: "'n date_value"
  source :: string

definition no_rates_available :: py_error where
  "no_rates_available = Exception ''No exchange rates available''"

text \<open>The \<^verbatim>\<open>except\<close> block: the rows of the greatest date, or the one error of the function.\<close>

definition cache_fallback :: "('n::linorder) store \<Rightarrow> py_error + 'n latest_rates" where
  "cache_fallback s =
     (case latest_rows s of
        [] \<Rightarrow> Inl no_rates_available
      | row # rows \<Rightarrow>
          Inr \<lparr>rates = rates_of_rows (row # rows), rates_date = row_date row,
                source = ''cache-fallback''\<rparr>)"

text \<open>
  \<open>today\<close> is \<^verbatim>\<open>date.today().strftime("%Y-%m-%d")\<close>; \<open>fetched\<close> is what
  \<^verbatim>\<open>await fetch_bnr_rates()\<close> yields if it is reached. The result is the value returned or
  raised, the table afterwards, and the number of calls of \<^verbatim>\<open>fetch_bnr_rates\<close>. A dict
  built from at least one row is not empty, so \<^verbatim>\<open>if cached\<close> holds exactly when
  \<^verbatim>\<open>get_cached_rates\<close> did not return \<^verbatim>\<open>None\<close>. The \<^verbatim>\<open>try\<close> block holds the fetch and the
  save: an exception of either one ends in the \<^verbatim>\<open>except\<close> block.
\<close>

definition get_latest_rates ::
  "(string \<Rightarrow> 'n option) \<Rightarrow> string \<Rightarrow> py_error + bnr_data \<Rightarrow> ('n::linorder) store \<Rightarrow>
   (py_error + 'n latest_rates) \<times> 'n store \<times> nat"
where
  "get_latest_rates lit today fetched s =
     (case get_cached_rates lit s today of
        Some cached \<Rightarrow> (Inr \<lparr>rates = cached, rates_date = Text today, source = ''cache''\<rparr>, s, 0)
      | None \<Rightarrow>
          (case fetched of
             Inr data \<Rightarrow>
               (let exchange_rates = exchangeRates data;
                    rdate = rate_date data
                in case save_rates_to_database lit exchange_rates rdate s of
                     Inr s' \<Rightarrow>
                       (Inr \<lparr>rates = map_of (map (\<lambda>(currency, d). (currency, rate d))
                                                 exchange_rates),
                             rates_date = Text rdate, source = ''bnr''\<rparr>, s', 1)
                   | Inl error \<Rightarrow> (cache_fallback s, s, 1))
           | Inl error \<Rightarrow> (cache_fallback s, s, 1)))"

subsection \<open>convert_currency\<close>

definition rate_not_available :: "string \<Rightarrow> string \<Rightarrow> py_error" where
  "rate_not_available from_currency to_currency =
     ValueError (''Exchange rate not available for '' @ from_currency @ '' or '' @ to_currency)"

text \<open>The arithmetic once both rates are at hand.\<close>

definition convert_with :: "pyfloat \<Rightarrow> pyfloat \<Rightarrow> pyfloat \<Rightarrow> py_error + pyfloat" where
  "convert_with amount rate_from rate_to =
     (let amount_in_ron = py_mul amount rate_from in
      case py_truediv amount_in_ron rate_to of
        Inl e \<Rightarrow> Inl e
      | Inr converted_amount \<Rightarrow> Inr (py_round2 converted_amount))"

definition lookup_and_convert ::
  "pyfloat \<Rightarrow> string \<Rightarrow> string \<Rightarrow> (string \<rightharpoonup> pyfloat) \<Rightarrow> py_error + pyfloat"
where
  "lookup_and_convert amount from_currency to_currency rs =
     (case (rs from_currency, rs to_currency) of
        (Some rate_from, Some rate_to) \<Rightarrow> convert_with amount rate_from rate_to
      | _ \<Rightarrow> Inl (rate_not_available from_currency to_currency))"

text \<open>
  \<open>rates_arg\<close> is the optional argument \<^verbatim>\<open>rates\<close> (\<open>None\<close>: not supplied, the latest rates
  are asked for). As for \<open>get_latest_rates\<close>, the table and the number of fetches are
  returned with the result; \<open>lit\<close>, \<open>today\<close>, \<open>fetched\<close> and the table are what that call
  works on.
\<close>

definition convert_currency ::
  "pyfloat \<Rightarrow> string \<Rightarrow> string \<Rightarrow> (string \<rightharpoonup> pyfloat) option \<Rightarrow>
   (string \<Rightarrow> 'n option) \<Rightarrow> string \<Rightarrow> py_error + bnr_data \<Rightarrow> ('n::linorder) store \<Rightarrow>
   (py_error + pyfloat) \<times> 'n store \<times> nat"
where
  "convert_currency amount from_currency to_currency rates_arg lit today fetched s =
     (if from_currency = to_currency then (Inr amount, s, 0)
      else case rates_arg of
             Some rs \<Rightarrow> (lookup_and_convert amount from_currency to_currency rs, s, 0)
           | None \<Rightarrow>
               (case get_latest_rates lit today fetched s of
                  (Inl e, s', n) \<Rightarrow> (Inl e, s', n)
                | (Inr rates_data, s', n) \<Rightarrow>
                    (lookup_and_convert amount from_currency to_currency (rates rates_data),
                     s', n)))"

section \<open>Vocabulary of the statements\<close>

text \<open>What \<^verbatim>\<open>float(rate_elem.text)\<close> yields for a \<^verbatim>\<open>Rate\<close> element, \<open>None\<close> when it raises.\<close>

definition published_value :: "pylib \<Rightarrow> xml \<Rightarrow> pyfloat option" where
  "published_value L e = (case elem_text e of None \<Rightarrow> None | Some t \<Rightarrow> float_of_str L t)"

text \<open>What \<^verbatim>\<open>int(rate_elem.get("multiplier", "1"))\<close> yields, \<open>None\<close> when it raises.\<close>

definition multiplier_of :: "pylib \<Rightarrow> xml \<Rightarrow> int option" where
  "multiplier_of L e = int_of_str L (get_attr_default e ''multiplier'' ''1'')"

text \<open>
  The element passes \<^verbatim>\<open>if currency_code and rate_value\<close> with the code \<open>c\<close>: it writes
  the key \<open>c\<close> of the dict.
\<close>

definition writes_code :: "pylib \<Rightarrow> string \<Rightarrow> xml \<Rightarrow> bool" where
  "writes_code L c e =
     (get_attr e ''currency'' = Some c \<and> c \<noteq> [] \<and>
      (case published_value L e of None \<Rightarrow> False | Some v \<Rightarrow> float_truthy v))"

text \<open>
  The body of the loop raises on the element: \<^verbatim>\<open>int\<close> rejects the multiplier, \<^verbatim>\<open>float\<close>
  rejects the text (or there is no text), or the element passes the test and the
  division raises.
\<close>

definition raises :: "pylib \<Rightarrow> xml \<Rightarrow> bool" where
  "raises L e =
     (case multiplier_of L e of
        None \<Rightarrow> True
      | Some M \<Rightarrow>
          (case published_value L e of
             None \<Rightarrow> True
           | Some V \<Rightarrow>
               (case get_attr e ''currency'' of
                  None \<Rightarrow> False
                | Some c \<Rightarrow> c \<noteq> [] \<and> float_truthy V \<and> isl (py_truediv_int V M))))"

text \<open>The \<^verbatim>\<open>Cube\<close> element that \<^verbatim>\<open>fetch_bnr_rates\<close> reads from a response, if there is one.\<close>

definition document_cube :: "pylib \<Rightarrow> http_result \<Rightarrow> xml option" where
  "document_cube L resp =
     (case resp of
        RequestFailed \<Rightarrow> None
      | Response status body \<Rightarrow>
          if is_success status
          then (case fromstring L body of
                  None \<Rightarrow> None
                | Some root_elem \<Rightarrow> find_elem root_elem CubeTag)
          else None)"

text \<open>
  The currency entries that \<^verbatim>\<open>fetch_bnr_rates\<close> reads: the \<^verbatim>\<open>Rate\<close> elements below that
  \<^verbatim>\<open>Cube\<close>, the first one of the document.
\<close>

definition document_rates :: "pylib \<Rightarrow> http_result \<Rightarrow> xml list" where
  "document_rates L resp =
     (case document_cube L resp of None \<Rightarrow> [] | Some cube \<Rightarrow> findall cube RateTag)"

text \<open>The calls of \<^verbatim>\<open>fetch_bnr_rates\<close> made by successive calls of \<^verbatim>\<open>get_latest_rates\<close> on one day.\<close>

fun fetch_calls_on ::
  "(string \<Rightarrow> 'n option) \<Rightarrow> string \<Rightarrow> (py_error + bnr_data) list \<Rightarrow> ('n::linorder) store \<Rightarrow> nat list"
where
  "fetch_calls_on lit today [] s = []"
| "fetch_calls_on lit today (fetched # rest) s =
     (case get_latest_rates lit today fetched s of
        (result, s', n) \<Rightarrow> n # fetch_calls_on lit today rest s')"

text \<open>No rate of the dict is a NaN: every \<^verbatim>\<open>INSERT\<close> of the save succeeds.\<close>

definition storable :: "(string \<times> rate_entry) list \<Rightarrow> bool" where
  "storable rates_dict = list_all (\<lambda>(currency, rate_value). rate rate_value \<noteq> NaN) rates_dict"

text \<open>The constraint \<^verbatim>\<open>UNIQUE(currency_code, date)\<close> of the table.\<close>

definition unique_rows :: "'n store \<Rightarrow> bool" where
  "unique_rows s = distinct (map (\<lambda>r. (currency_code r, row_date r)) s)"

subsection \<open>Sample documents\<close>

text \<open>
  A \<^verbatim>\<open>Rate\<close> element with its currency, its optional multiplier and its text, and a
  document of the shape the bank publishes: the dated \<^verbatim>\<open>Cube\<close> below \<^verbatim>\<open>Body\<close>.
\<close>

definition rate_element :: "string \<Rightarrow> string option \<Rightarrow> string \<Rightarrow> xml" where
  "rate_element code mult txt =
     Element RateTag
       ((''currency'', code) # (case mult of None \<Rightarrow> [] | Some m \<Rightarrow> [(''multiplier'', m)]))
       (Some txt) []"

definition dataset :: "string \<Rightarrow> xml list \<Rightarrow> xml" where
  "dataset d rate_elems =
     Element ''{http://www.bnr.ro/xsd}DataSet'' [] None
       [Element ''{http://www.bnr.ro/xsd}Header'' [] None [],
        Element ''{http://www.bnr.ro/xsd}Body'' [] None
          [Element CubeTag [(''date'', d)] None rate_elems]]"

text \<open>The same document with a \<^verbatim>\<open>Cube\<close> that has no attribute \<^verbatim>\<open>date\<close>.\<close>

definition undated_dataset :: "xml list \<Rightarrow> xml" where
  "undated_dataset rate_elems =
     Element ''{http://www.bnr.ro/xsd}DataSet'' [] None
       [Element ''{http://www.bnr.ro/xsd}Header'' [] None [],
        Element ''{http://www.bnr.ro/xsd}Body'' [] None
          [Element CubeTag [] None rate_elems]]"

text \<open>
  What \<^verbatim>\<open>float\<close> and \<^verbatim>\<open>int\<close> yield on the literals of the samples (they raise on any
  other string of the samples); \<^verbatim>\<open>5e-324\<close> is the least positive double and
  \<^verbatim>\<open>float("nan")\<close> is a NaN. \<open>lib_for doc\<close> parses the body \<^verbatim>\<open>nbrfxrates.xml\<close> to \<open>doc\<close>
  and rejects any other body.
\<close>

definition min_subnormal :: rat where
  "min_subnormal = 1 / 2 ^ 1074"

definition float_table :: "string \<rightharpoonup> pyfloat" where
  "float_table =
     [''5.0'' \<mapsto> Finite 5, ''4.0'' \<mapsto> Finite 4, ''25.0'' \<mapsto> Finite 25, ''0.0'' \<mapsto> Finite 0,
      ''5e-324'' \<mapsto> Finite min_subnormal, ''nan'' \<mapsto> NaN]"

definition int_table :: "string \<rightharpoonup> int" where
  "int_table = [''1'' \<mapsto> 1, ''2'' \<mapsto> 2, ''100'' \<mapsto> 100]"

definition lib_for :: "xml \<Rightarrow> pylib" where
  "lib_for doc =
     \<lparr>fromstring = [''nbrfxrates.xml'' \<mapsto> doc], int_of_str = int_table,
      float_of_str = float_table\<rparr>"

text \<open>
  The numeric literals among the dates of the samples: \<^verbatim>\<open>2024\<close> is one, and the column
  stores it as the integer; a date written \<^verbatim>\<open>YYYY-MM-DD\<close> is none.
\<close>

definition literal_table :: "string \<rightharpoonup> int" where
  "literal_table = [''2024'' \<mapsto> 2024]"

section \<open>Rounding to a double\<close>

lemma bitlen_powi_bounds:
  assumes "0 < p"
  shows "(2::rat) powi (bitlen p - 1) \<le> of_int p" and "of_int p < (2::rat) powi bitlen p"
proof -
  have b1: "1 \<le> bitlen p" using assms by (auto simp: bitlen_alt_def)
  have "2 ^ nat (bitlen p - 1) \<le> p" and "p < 2 ^ nat (bitlen p)"
    using bitlen_bounds [OF assms] by auto
  then have "(of_int (2 ^ nat (bitlen p - 1)) :: rat) \<le> of_int p"
    and "(of_int p :: rat) < of_int (2 ^ nat (bitlen p))"
    by (simp_all only: of_int_le_iff of_int_less_iff)
  then show "(2::rat) powi (bitlen p - 1) \<le> of_int p" and "of_int p < (2::rat) powi bitlen p"
    using b1 by (simp_all add: power_int_def)
qed

lemma ilog2_bounds:
  assumes "0 < a"
  shows "2 powi ilog2 a \<le> a" and "a < 2 powi (ilog2 a + 1)"
proof -
  obtain p q where pq: "quotient_of a = (p, q)" by force
  have q: "0 < q" using quotient_of_denom_pos [OF pq] .
  have a: "a = of_int p / of_int q" using quotient_of_div [OF pq] .
  have p: "0 < p" using assms q a by (simp add: zero_less_divide_iff)
  define d where "d = bitlen p - bitlen q"
  have il: "ilog2 a = (if 2 powi d \<le> a then d else d - 1)"
    by (simp add: ilog2_def pq d_def)
  have qpos: "(0::rat) < of_int q" using q by simp
  have lo: "(2::rat) powi (d - 1) \<le> a"
  proof -
    have "(2::rat) powi (d - 1) * of_int q \<le> 2 powi (d - 1) * 2 powi bitlen q"
      using bitlen_powi_bounds(2) [OF q] by (intro mult_left_mono) auto
    also have "\<dots> = 2 powi (bitlen p - 1)"
      by (simp add: d_def power_int_add [symmetric])
    also have "\<dots> \<le> of_int p" using bitlen_powi_bounds(1) [OF p] .
    finally show ?thesis using qpos by (simp add: a pos_le_divide_eq)
  qed
  have hi: "a < (2::rat) powi (d + 1)"
  proof -
    have "of_int p < (2::rat) powi bitlen p" using bitlen_powi_bounds(2) [OF p] .
    also have "\<dots> = 2 powi (d + 1) * 2 powi (bitlen q - 1)"
      by (simp add: d_def power_int_add [symmetric])
    also have "\<dots> \<le> 2 powi (d + 1) * of_int q"
      using bitlen_powi_bounds(1) [OF q] by (intro mult_left_mono) auto
    finally show ?thesis using qpos by (simp add: a pos_divide_less_eq)
  qed
  show "2 powi ilog2 a \<le> a" using lo by (simp add: il)
  show "a < 2 powi (ilog2 a + 1)" using hi by (auto simp add: il not_le)
qed

lemma round_half_even_zero_iff:
  assumes "0 \<le> x"
  shows "round_half_even x = 0 \<longleftrightarrow> x \<le> 1 / 2"
proof (cases "x < 1")
  case True
  then have f: "\<lfloor>x\<rfloor> = 0" using assms by (simp add: floor_eq_iff)
  show ?thesis by (auto simp add: round_half_even_def f Let_def)
next
  case False
  then have fl: "1 \<le> \<lfloor>x\<rfloor>" by (simp add: le_floor_iff)
  have "0 < round_half_even x" using fl by (auto simp add: round_half_even_def Let_def)
  then show ?thesis using False by simp
qed

lemma round_half_even_error: "\<bar>of_int (round_half_even x) - x\<bar> \<le> 1 / 2"
proof -
  have "of_int \<lfloor>x\<rfloor> \<le> x" "x < of_int \<lfloor>x\<rfloor> + 1" by linarith+
  then show ?thesis by (auto simp add: round_half_even_def Let_def abs_le_iff)
qed

lemma round_half_even_nonneg: "0 \<le> x \<Longrightarrow> 0 \<le> round_half_even x"
  by (auto simp add: round_half_even_def Let_def)

lemma round_to_double_zero_iff:
  "round_to_double q = Finite 0 \<longleftrightarrow> \<bar>q\<bar> \<le> 1 / 2 ^ 1075"
proof (cases "q = 0")
  case True
  then show ?thesis by (simp add: round_to_double_def)
next
  case False
  define a where "a = \<bar>q\<bar>"
  define e where "e = max (ilog2 a) (- 1022)"
  define u where "u = (2::rat) powi (e - 52)"
  define n where "n = round_half_even (a / u)"
  have a: "0 < a" using False by (simp add: a_def)
  have u: "0 < u" by (simp add: u_def)
  have n0: "0 \<le> n" unfolding n_def using a u by (intro round_half_even_nonneg) simp
  have rd: "round_to_double q =
      (if 2 powi 1024 \<le> of_int n * u then (if 0 < q then PosInf else NegInf)
       else Finite (sgn q * (of_int n * u)))"
    using False by (simp add: round_to_double_def Let_def a_def e_def u_def n_def)
  have iff1: "round_to_double q = Finite 0 \<longleftrightarrow> n = 0"
    using False u by (auto simp add: rd sgn_eq_0_iff)
  have iff2: "n = 0 \<longleftrightarrow> a \<le> u / 2"
    unfolding n_def using a u round_half_even_zero_iff [of "a / u"]
    by (simp add: pos_divide_le_eq)
  have u2: "u / 2 = 2 powi (e - 53)"
  proof -
    have "(2::rat) powi (e - 52) = 2 powi (e - 53) * 2"
      using power_int_add_1 [of "2::rat" "e - 53"] by (simp add: algebra_simps)
    then show ?thesis by (simp add: u_def)
  qed
  show ?thesis
  proof (cases "ilog2 a < - 1022")
    case True
    then have "e = - 1022" by (simp add: e_def)
    then have "u / 2 = 1 / 2 ^ 1075" by (simp add: u2 power_int_minus_divide)
    then show ?thesis unfolding iff1 iff2 a_def by (simp only:)
  next
    case False
    then have e: "e = ilog2 a" and ge: "- 1022 \<le> ilog2 a" by (simp_all add: e_def)
    have "(2::rat) powi (e - 53) < 2 powi e"
      by (intro power_int_strict_increasing) auto
    also have "\<dots> \<le> a" using ilog2_bounds(1) [OF a] e by simp
    finally have na: "\<not> a \<le> u / 2" by (simp add: u2)
    have "(1::rat) / 2 ^ 1075 = 2 powi (- 1075)" by (simp add: power_int_minus_divide)
    also have "\<dots> < 2 powi e" using ge e
      by (intro power_int_strict_increasing) auto
    also have "\<dots> \<le> a" using ilog2_bounds(1) [OF a] e by simp
    finally have "\<not> a \<le> 1 / 2 ^ 1075" by simp
    then show ?thesis using na unfolding iff1 iff2 a_def by (simp only:)
  qed
qed

lemma round_half_even_of_int: "round_half_even (of_int m) = m"
  by (simp add: round_half_even_def)

lemma round_to_double_exact:
  assumes q: "q = of_int n * 2 powi k" and n: "\<bar>n\<bar> < 2 ^ 53" and k: "- 1074 \<le> k"
    and fin: "\<bar>q\<bar> < 2 ^ 1024"
  shows "round_to_double q = Finite q"
proof (cases "q = 0")
  case True
  then show ?thesis by (simp add: round_to_double_def)
next
  case False
  define a where "a = \<bar>q\<bar>"
  define e where "e = max (ilog2 a) (- 1022)"
  define u where "u = (2::rat) powi (e - 52)"
  have a: "0 < a" using False by (simp add: a_def)
  have u: "0 < u" by (simp add: u_def)
  have an: "a = of_int \<bar>n\<bar> * 2 powi k"
    by (simp add: a_def q abs_mult)
  have ek: "e \<le> k + 52"
  proof (cases "ilog2 a < - 1022")
    case True
    then show ?thesis using k by (simp add: e_def)
  next
    case False
    then have e: "e = ilog2 a" by (simp add: e_def)
    have "(2::rat) powi e \<le> a" using ilog2_bounds(1) [OF a] e by simp
    also have "a < 2 ^ 53 * 2 powi k"
    proof -
      have "(of_int \<bar>n\<bar> :: rat) < of_int (2 ^ 53)"
        using n by (simp only: of_int_less_iff)
      then have "(of_int \<bar>n\<bar> :: rat) < 2 ^ 53" by simp
      then show ?thesis unfolding an by (intro mult_strict_right_mono) simp_all
    qed
    also have "\<dots> = 2 powi (k + 53)"
      by (simp add: power_int_add)
    finally have lt: "(2::rat) powi e < 2 powi (k + 53)" .
    have "e < k + 53"
    proof (rule ccontr)
      assume "\<not> e < k + 53"
      then have "(2::rat) powi (k + 53) \<le> 2 powi e"
        by (intro power_int_increasing) simp_all
      then show False using lt by simp
    qed
    then show ?thesis by simp
  qed
  define j where "j = nat (k + 52 - e)"
  have "(2::rat) powi k = 2 powi (int j + (e - 52))"
    using ek by (simp add: j_def)
  also have "\<dots> = 2 ^ j * u"
    by (simp add: u_def power_int_add)
  finally have "a / u = of_int (\<bar>n\<bar> * 2 ^ j)"
    using u by (simp add: an)
  then have "round_half_even (a / u) = \<bar>n\<bar> * 2 ^ j"
    by (simp only: round_half_even_of_int)
  moreover have "of_int (\<bar>n\<bar> * 2 ^ j) * u = a"
    using \<open>a / u = of_int (\<bar>n\<bar> * 2 ^ j)\<close> u by (simp add: field_simps)
  ultimately have r: "of_int (round_half_even (a / u)) * u = a" by simp
  have "\<not> 2 powi 1024 \<le> a" using fin by (simp add: a_def)
  moreover have "sgn q * a = q" by (simp add: a_def sgn_mult_abs)
  ultimately show ?thesis
    using False r by (simp add: round_to_double_def Let_def a_def [symmetric] e_def [symmetric] u_def [symmetric])
qed

lemma round_to_double_int:
  assumes "\<bar>n\<bar> < 2 ^ 53"
  shows "round_to_double (of_int n) = Finite (of_int n)"
proof -
  have "(of_int \<bar>n\<bar> :: rat) < of_int (2 ^ 53)"
    using assms by (simp only: of_int_less_iff)
  then have "\<bar>of_int n :: rat\<bar> < 2 ^ 53" by simp
  also have "\<dots> < 2 ^ 1024" by simp
  finally show ?thesis
    using round_to_double_exact [of "of_int n" n 0] assms by simp
qed

lemma round_to_double_numeral:
  assumes "(numeral w :: int) < 2 ^ 53"
  shows "round_to_double (numeral w) = Finite (numeral w)"
  using round_to_double_int [of "numeral w"] assms by simp

lemma round_to_double_1: "round_to_double 1 = Finite 1"
  using round_to_double_int [of 1] by simp

lemma py_truediv_nonzero:
  assumes "y \<noteq> Finite 0"
  shows "\<exists>q. py_truediv x y = Inr q"
  using assms by (cases x; cases y) auto

lemma py_round2_int:
  assumes "\<bar>n\<bar> < 2 ^ 53"
  shows "py_round2 (Finite (of_int n)) = Finite (of_int n)"
proof -
  have "of_int n * (100::rat) = of_int (n * 100)" by simp
  then have "round_half_even (of_int n * 100) = n * 100"
    by (simp only: round_half_even_of_int)
  then show ?thesis using round_to_double_int [OF assms] by simp
qed

lemma round_to_double_0: "round_to_double 0 = Finite 0"
  by (simp add: round_to_double_def)

lemma round_to_double_quarter: "round_to_double (1 / 4) = Finite (1 / 4)"
  using round_to_double_exact [of "1 / 4" 1 "- 2"] by (simp add: power_int_minus_divide)

lemma float_of_int_numeral:
  assumes "(numeral w :: int) < 2 ^ 53"
  shows "float_of_int (numeral w) = Inr (Finite (numeral w))"
  using round_to_double_numeral [OF assms] by (simp add: float_of_int_def)

lemma float_of_int_1: "float_of_int 1 = Inr (Finite 1)"
  by (simp add: float_of_int_def round_to_double_1)

lemma float_of_int_Inr: "float_of_int M = Inr y \<Longrightarrow> \<exists>m. y = Finite m"
  by (cases "round_to_double (of_int M)") (auto simp add: float_of_int_def)

lemma py_truediv_Inl: "py_truediv x y = Inl e \<Longrightarrow> y = Finite 0"
  by (cases x; cases y) (auto split: if_splits)

lemma py_truediv_int_zero:
  assumes "py_truediv_int V M = Inr (Finite 0)" and "float_truthy V"
  shows "\<exists>v m. V = Finite v \<and> v \<noteq> 0 \<and> float_of_int M = Inr (Finite m) \<and> m \<noteq> 0 \<and>
           \<bar>v / m\<bar> \<le> 1 / 2 ^ 1075"
proof -
  from assms(1) obtain y where y: "float_of_int M = Inr y" and d: "py_truediv V y = Inr (Finite 0)"
    by (auto simp add: py_truediv_int_def split: sum.splits)
  from float_of_int_Inr [OF y] obtain m where m: "y = Finite m" by blast
  have m0: "m \<noteq> 0" using d m by auto
  from d m m0 obtain v where v: "V = Finite v" and r: "round_to_double (v / m) = Finite 0"
    by (cases V) (auto split: if_splits)
  have "v \<noteq> 0" using assms(2) v by (simp add: float_truthy_def)
  moreover have "\<bar>v / m\<bar> \<le> 1 / 2 ^ 1075" using r by (simp only: round_to_double_zero_iff)
  ultimately show ?thesis using v y m m0 by blast
qed

lemma min_subnormal_truthy: "min_subnormal \<noteq> 0"
  by (simp add: min_subnormal_def)

lemma min_subnormal_half: "py_truediv_int (Finite min_subnormal) 2 = Inr (Finite 0)"
proof -
  have "min_subnormal \<noteq> 0" by (simp add: min_subnormal_def)
  moreover have "round_to_double (min_subnormal / 2) = Finite 0"
    by (simp add: round_to_double_zero_iff min_subnormal_def)
  ultimately show ?thesis by (simp add: py_truediv_int_def float_of_int_numeral)
qed

subsection \<open>The error of a rounding\<close>

lemma round_to_double_error:
  assumes "\<bar>q\<bar> \<le> 2 ^ 1000"
  shows "\<exists>r. round_to_double q = Finite r \<and> \<bar>r - q\<bar> \<le> \<bar>q\<bar> / 2 ^ 53 + 1 / 2 ^ 1075"
proof (cases "q = 0")
  case True
  then show ?thesis by (simp add: round_to_double_def)
next
  case False
  define a where "a = \<bar>q\<bar>"
  define e where "e = max (ilog2 a) (- 1022)"
  define u where "u = (2::rat) powi (e - 52)"
  define n where "n = round_half_even (a / u)"
  have a: "0 < a" using False by (simp add: a_def)
  have u: "0 < u" by (simp add: u_def)
  have rd: "round_to_double q =
      (if 2 powi 1024 \<le> of_int n * u then (if 0 < q then PosInf else NegInf)
       else Finite (sgn q * (of_int n * u)))"
    using False by (simp add: round_to_double_def Let_def a_def e_def u_def n_def)
  have "\<bar>of_int n - a / u\<bar> \<le> 1 / 2"
    unfolding n_def by (rule round_half_even_error)
  then have "\<bar>of_int n - a / u\<bar> * u \<le> 1 / 2 * u"
    using u by (intro mult_right_mono) simp_all
  moreover have "\<bar>of_int n - a / u\<bar> * u = \<bar>of_int n * u - a\<bar>"
  proof -
    have "\<bar>of_int n - a / u\<bar> * u = \<bar>(of_int n - a / u) * u\<bar>"
      using u by (simp add: abs_mult)
    also have "(of_int n - a / u) * u = of_int n * u - a"
      using u by (simp add: field_simps)
    finally show ?thesis .
  qed
  ultimately have err: "\<bar>of_int n * u - a\<bar> \<le> u / 2" by simp
  have u2: "u / 2 = 2 powi (e - 53)"
  proof -
    have "(2::rat) powi (e - 52) = 2 powi (e - 53) * 2"
      using power_int_add_1 [of "2::rat" "e - 53"] by (simp add: algebra_simps)
    then show ?thesis by (simp add: u_def)
  qed
  have ub: "u / 2 \<le> a / 2 ^ 53 + 1 / 2 ^ 1075"
  proof (cases "ilog2 a < - 1022")
    case True
    then have "e = - 1022" by (simp add: e_def)
    then have "u / 2 = 1 / 2 ^ 1075" by (simp add: u2 power_int_minus_divide)
    moreover have "0 \<le> a / 2 ^ 53" using a by simp
    ultimately show ?thesis by linarith
  next
    case False
    then have e: "e = ilog2 a" by (simp add: e_def)
    have "(2::rat) powi e = 2 powi (e - 53) * 2 ^ 53"
      by (simp add: power_int_diff)
    then have "u / 2 = 2 powi e / 2 ^ 53" by (simp add: u2)
    also have "\<dots> \<le> a / 2 ^ 53"
      using ilog2_bounds(1) [OF a] e by (simp add: divide_right_mono)
    finally show ?thesis by simp
  qed
  have e1: "\<bar>of_int n * u - a\<bar> \<le> a / 2 ^ 53 + 1 / 2 ^ 1075"
    using err ub by linarith
  have "a \<le> 2 ^ 1000" using assms by (simp add: a_def)
  then have "a + (a / 2 ^ 53 + 1 / 2 ^ 1075) < 2 ^ 1024" by simp
  then have "of_int n * u < 2 ^ 1024" using e1 by linarith
  then have fin: "round_to_double q = Finite (sgn q * (of_int n * u))"
    by (simp add: rd)
  have "sgn q * a = q" by (simp add: a_def sgn_mult_abs)
  then have "sgn q * (of_int n * u) - q = sgn q * (of_int n * u - a)"
    by (simp add: algebra_simps)
  then have "\<bar>sgn q * (of_int n * u) - q\<bar> = \<bar>sgn q * (of_int n * u - a)\<bar>"
    by simp
  also have "\<dots> = \<bar>of_int n * u - a\<bar>"
    using False by (simp add: abs_mult abs_sgn_eq)
  finally show ?thesis using fin e1 by (simp add: a_def)
qed

lemma py_round2_error:
  assumes "\<bar>t\<bar> \<le> 2 ^ 900"
  shows "\<exists>c. py_round2 (Finite t) = Finite c \<and>
           \<bar>c - t\<bar> \<le> 1 / 200 + (\<bar>t\<bar> + 1 / 200) / 2 ^ 53 + 1 / 2 ^ 1075"
proof -
  define D where "D = (of_int (round_half_even (t * 100)) :: rat) / 100"
  define X where "X = (of_int (round_half_even (t * 100)) :: rat) - t * 100"
  have X: "\<bar>X\<bar> \<le> 1 / 2"
    unfolding X_def by (rule round_half_even_error)
  have eq: "D - t = X / 100"
    by (simp add: D_def X_def field_simps)
  have "\<bar>D - t\<bar> = \<bar>X / 100\<bar>" by (simp only: eq)
  also have "\<dots> = \<bar>X\<bar> / 100" by (simp add: abs_divide)
  also have "\<dots> \<le> (1 / 2) / 100"
    using X by (intro divide_right_mono) simp_all
  finally have dt: "\<bar>D - t\<bar> \<le> 1 / 200" by simp
  then have dabs: "\<bar>D\<bar> \<le> \<bar>t\<bar> + 1 / 200" by linarith
  have "(2::rat) ^ 900 + 1 / 200 \<le> 2 ^ 1000" by simp
  then have "\<bar>D\<bar> \<le> 2 ^ 1000" using dabs assms by linarith
  from round_to_double_error [OF this] obtain c where c: "round_to_double D = Finite c"
    and cd: "\<bar>c - D\<bar> \<le> \<bar>D\<bar> / 2 ^ 53 + 1 / 2 ^ 1075" by blast
  have "\<bar>D\<bar> / 2 ^ 53 \<le> (\<bar>t\<bar> + 1 / 200) / 2 ^ 53"
    using dabs by (simp add: divide_right_mono)
  then have "\<bar>c - t\<bar> \<le> 1 / 200 + (\<bar>t\<bar> + 1 / 200) / 2 ^ 53 + 1 / 2 ^ 1075"
    using cd dt by linarith
  then show ?thesis using c by (simp add: D_def)
qed

lemma scaled_error:
  fixes r q h k :: rat
  assumes "\<bar>r - q\<bar> \<le> \<bar>q\<bar> / 2 ^ 53 + h" and "0 < k"
  shows "\<bar>r * k - q * k\<bar> \<le> \<bar>q * k\<bar> / 2 ^ 53 + h * k"
proof -
  have "\<bar>r * k - q * k\<bar> = \<bar>r - q\<bar> * k"
    using assms(2) by (simp add: abs_mult left_diff_distrib [symmetric])
  also have "\<dots> \<le> (\<bar>q\<bar> / 2 ^ 53 + h) * k"
    using assms by (intro mult_right_mono) simp_all
  also have "\<dots> = \<bar>q * k\<bar> / 2 ^ 53 + h * k"
    using assms(2) by (simp add: abs_mult algebra_simps)
  finally show ?thesis .
qed

lemma near_bound:
  fixes t W h B :: rat
  assumes "\<bar>t - W\<bar> \<le> \<bar>W\<bar> / 2 ^ 53 + h" and "h \<le> 1" and "\<bar>W\<bar> \<le> B"
  shows "\<bar>t\<bar> \<le> 2 * B + 1"
proof -
  define w where "w = \<bar>W\<bar>"
  define g where "g = \<bar>t - W\<bar>"
  have w0: "0 \<le> w" by (simp add: w_def)
  have "g \<le> w / 2 ^ 53 + h" using assms(1) by (simp only: w_def g_def)
  moreover have "w / 2 ^ 53 \<le> w" using w0 by (simp add: field_simps)
  ultimately have "g \<le> w + 1" using assms(2) by linarith
  moreover have "\<bar>t\<bar> \<le> w + g" unfolding w_def g_def by linarith
  moreover have "w \<le> B" using assms(3) by (simp only: w_def)
  ultimately show ?thesis by linarith
qed

lemma three_roundings:
  fixes t1 t2 c W :: rat
  assumes d1: "\<bar>t1 - W\<bar> \<le> \<bar>W\<bar> / 2 ^ 53 + 1 / 2 ^ 1055"
    and e2: "\<bar>t2 - t1\<bar> \<le> \<bar>t1\<bar> / 2 ^ 53 + 1 / 2 ^ 1075"
    and e3: "\<bar>c - t2\<bar> \<le> 1 / 200 + (\<bar>t2\<bar> + 1 / 200) / 2 ^ 53 + 1 / 2 ^ 1075"
  shows "\<bar>c - W\<bar> \<le> 1 / 200 + (\<bar>W\<bar> + 1) / 2 ^ 50"
proof -
  define w where "w = \<bar>W\<bar>"
  define u1 where "u1 = \<bar>t1\<bar>"
  define u2 where "u2 = \<bar>t2\<bar>"
  define g1 where "g1 = \<bar>t1 - W\<bar>"
  define g2 where "g2 = \<bar>t2 - t1\<bar>"
  define g3 where "g3 = \<bar>c - t2\<bar>"
  have w0: "0 \<le> w" by (simp add: w_def)
  have d1': "g1 \<le> w / 2 ^ 53 + 1 / 2 ^ 1055"
    and e2': "g2 \<le> u1 / 2 ^ 53 + 1 / 2 ^ 1075"
    and e3': "g3 \<le> 1 / 200 + (u2 + 1 / 200) / 2 ^ 53 + 1 / 2 ^ 1075"
    using d1 e2 e3 by (simp_all only: w_def u1_def u2_def g1_def g2_def g3_def)
  have b1: "g1 \<le> (w + 1) / 2 ^ 53"
    using d1' w0 by (simp add: add_divide_distrib)
  have "u1 \<le> w + g1" unfolding u1_def w_def g1_def by linarith
  then have a1: "u1 \<le> 2 * w + 1" using b1 w0 by (simp add: add_divide_distrib)
  have b2: "g2 \<le> (2 * w + 2) / 2 ^ 53"
    using e2' a1 w0 by (simp add: add_divide_distrib)
  have "u2 \<le> u1 + g2" unfolding u1_def u2_def g2_def by linarith
  then have a2: "u2 \<le> 3 * w + 2" using a1 b2 w0 by (simp add: add_divide_distrib)
  have b3: "g3 \<le> 1 / 200 + (3 * w + 3) / 2 ^ 53"
    using e3' a2 w0 by (simp add: add_divide_distrib)
  have "\<bar>c - W\<bar> \<le> g3 + g2 + g1" unfolding g1_def g2_def g3_def by linarith
  then have "\<bar>c - W\<bar> \<le> 1 / 200 + (w + 1) / 2 ^ 50"
    using b1 b2 b3 w0 by (simp add: add_divide_distrib)
  then show ?thesis by (simp only: w_def)
qed

lemma convert_with_error:
  assumes p: "1 / 2 ^ 20 \<le> p" "p \<le> 2 ^ 20" and q: "1 / 2 ^ 20 \<le> q" "q \<le> 2 ^ 20"
    and a: "\<bar>a\<bar> \<le> 2 ^ 100"
  shows "\<exists>c. convert_with (Finite a) (Finite p) (Finite q) = Inr (Finite c) \<and>
           \<bar>c - a * p / q\<bar> \<le> 1 / 200 + (\<bar>a * p / q\<bar> + 1) / 2 ^ 50"
proof -
  define W where "W = a * p / q"
  have ppos: "0 < p" and qpos: "0 < q" using p(1) q(1) by (simp_all add: less_le_trans [rotated])
  have ap: "\<bar>a * p\<bar> \<le> 2 ^ 100 * 2 ^ 20"
    unfolding abs_mult using a p(2) ppos by (intro mult_mono) simp_all
  have iq: "1 / q \<le> 2 ^ 20"
    using q(1) qpos by (simp add: field_simps)
  have "\<bar>W\<bar> = \<bar>a * p\<bar> * (1 / q)" using qpos by (simp add: W_def abs_mult)
  also have "\<dots> \<le> (2 ^ 100 * 2 ^ 20) * 2 ^ 20"
    using ap iq qpos by (intro mult_mono) simp_all
  finally have w: "\<bar>W\<bar> \<le> 2 ^ 140" by simp
  have "\<bar>a * p\<bar> \<le> 2 ^ 1000" using ap by simp
  from round_to_double_error [OF this] obtain t1 where t1: "round_to_double (a * p) = Finite t1"
    and e1: "\<bar>t1 - a * p\<bar> \<le> \<bar>a * p\<bar> / 2 ^ 53 + 1 / 2 ^ 1075" by blast
  have "\<bar>t1 * (1 / q) - a * p * (1 / q)\<bar> \<le> \<bar>a * p * (1 / q)\<bar> / 2 ^ 53 + 1 / 2 ^ 1075 * (1 / q)"
    using e1 qpos by (intro scaled_error) simp_all
  moreover have "1 / 2 ^ 1075 * (1 / q) \<le> 1 / 2 ^ 1075 * 2 ^ 20"
    using iq by (intro mult_left_mono) simp_all
  ultimately have d1: "\<bar>t1 / q - W\<bar> \<le> \<bar>W\<bar> / 2 ^ 53 + 1 / 2 ^ 1055"
    by (simp add: W_def)
  have "(1::rat) / 2 ^ 1055 \<le> 1" by simp
  from near_bound [OF d1 this w] have t1b: "\<bar>t1 / q\<bar> \<le> 2 * 2 ^ 140 + 1" .
  then have "\<bar>t1 / q\<bar> \<le> 2 ^ 1000" by simp
  from round_to_double_error [OF this] obtain t2 where t2: "round_to_double (t1 / q) = Finite t2"
    and e2: "\<bar>t2 - t1 / q\<bar> \<le> \<bar>t1 / q\<bar> / 2 ^ 53 + 1 / 2 ^ 1075" by blast
  have "(1::rat) / 2 ^ 1075 \<le> 1" by simp
  from near_bound [OF e2 this t1b] have "\<bar>t2\<bar> \<le> 2 * (2 * 2 ^ 140 + 1) + 1" .
  then have "\<bar>t2\<bar> \<le> 2 ^ 900" by simp
  from py_round2_error [OF this] obtain c where c: "py_round2 (Finite t2) = Finite c"
    and e3: "\<bar>c - t2\<bar> \<le> 1 / 200 + (\<bar>t2\<bar> + 1 / 200) / 2 ^ 53 + 1 / 2 ^ 1075" by blast
  have "\<bar>c - W\<bar> \<le> 1 / 200 + (\<bar>W\<bar> + 1) / 2 ^ 50"
    using d1 e2 e3 by (rule three_roundings)
  moreover have "convert_with (Finite a) (Finite p) (Finite q) = Inr (Finite c)"
    using qpos t1 t2 c by (simp add: convert_with_def)
  ultimately show ?thesis by (auto simp add: W_def)
qed

lemma scaled_back_ratio:
  fixes b W a k :: rat
  assumes e: "\<bar>b - W\<bar> \<le> 1 / 200 + (\<bar>W\<bar> + 1) / 2 ^ 50"
    and k: "0 < k" and W: "W * k = a"
  shows "\<bar>b * k - a\<bar> \<le> k / 200 + (\<bar>a\<bar> + k) / 2 ^ 50"
proof -
  define w where "w = \<bar>a\<bar>"
  have "\<bar>W * k\<bar> = \<bar>W\<bar> * k" using k by (simp add: abs_mult)
  then have wk: "\<bar>W\<bar> * k = w" by (simp only: W w_def)
  have "\<bar>b * k - a\<bar> = \<bar>(b - W) * k\<bar>" using W by (simp add: algebra_simps)
  also have "\<dots> = \<bar>b - W\<bar> * k" using k by (simp add: abs_mult)
  also have "\<dots> \<le> (1 / 200 + (\<bar>W\<bar> + 1) / 2 ^ 50) * k"
    using e k by (intro mult_right_mono) simp_all
  also have "\<dots> = k / 200 + (\<bar>W\<bar> * k + k) / 2 ^ 50"
    by (simp add: algebra_simps add_divide_distrib)
  also have "\<dots> = k / 200 + (w + k) / 2 ^ 50" by (simp only: wk)
  finally show ?thesis by (simp only: w_def)
qed

lemma leg_bounded:
  fixes b W :: rat
  assumes e: "\<bar>b - W\<bar> \<le> 1 / 200 + (\<bar>W\<bar> + 1) / 2 ^ 50" and W: "\<bar>W\<bar> \<le> 2 ^ 80"
  shows "\<bar>b\<bar> \<le> 2 ^ 100"
proof -
  define u where "u = \<bar>W\<bar>"
  define g where "g = \<bar>b - W\<bar>"
  have "g \<le> 1 / 200 + (u + 1) / 2 ^ 50" and u: "u \<le> 2 ^ 80"
    using e W by (simp_all only: u_def g_def)
  then have "g \<le> 2 ^ 80" by (simp add: add_divide_distrib)
  moreover have "\<bar>b\<bar> \<le> u + g" unfolding u_def g_def by linarith
  ultimately have "\<bar>b\<bar> \<le> 2 ^ 80 + 2 ^ 80" using u by linarith
  then show ?thesis by simp
qed

lemma round_trip_bound:
  fixes c v a k :: rat
  assumes e1: "\<bar>v - a\<bar> \<le> k / 200 + (\<bar>a\<bar> + k) / 2 ^ 50"
    and e2: "\<bar>c - v\<bar> \<le> 1 / 200 + (\<bar>v\<bar> + 1) / 2 ^ 50"
    and k: "0 < k"
  shows "\<bar>c - a\<bar> \<le> (1 + k) / 200 + (\<bar>a\<bar> + k + 1) / 2 ^ 48"
proof -
  define w where "w = \<bar>a\<bar>"
  define u where "u = \<bar>v\<bar>"
  define g1 where "g1 = \<bar>v - a\<bar>"
  define g2 where "g2 = \<bar>c - v\<bar>"
  have w0: "0 \<le> w" by (simp add: w_def)
  have e1': "g1 \<le> k / 200 + (w + k) / 2 ^ 50"
    and e2': "g2 \<le> 1 / 200 + (u + 1) / 2 ^ 50"
    using e1 e2 by (simp_all only: w_def u_def g1_def g2_def)
  have b1: "g1 \<le> w + k"
    using e1' w0 k by (simp add: add_divide_distrib)
  have "u \<le> w + g1" unfolding u_def w_def g1_def by linarith
  then have u: "u \<le> 2 * w + k" using b1 by linarith
  have "g2 \<le> 1 / 200 + (2 * w + k + 1) / 2 ^ 50"
    using e2' u by (simp add: add_divide_distrib)
  then have "g2 + g1 \<le> (1 + k) / 200 + (w + k + 1) / 2 ^ 48"
    using e1' w0 k by (simp add: add_divide_distrib)
  moreover have "\<bar>c - a\<bar> \<le> g2 + g1" unfolding g1_def g2_def by linarith
  ultimately have "\<bar>c - a\<bar> \<le> (1 + k) / 200 + (w + k + 1) / 2 ^ 48" by linarith
  then show ?thesis by (simp only: w_def)
qed

lemma round_trip_cent:
  fixes g a k :: rat
  assumes e: "g \<le> (1 + k) / 200 + (\<bar>a\<bar> + k + 1) / 2 ^ 48"
    and k: "k \<le> 99 / 100" and a: "\<bar>a\<bar> \<le> 2 ^ 30"
  shows "g \<le> 1 / 100"
proof -
  define w where "w = \<bar>a\<bar>"
  have "g \<le> (1 + k) / 200 + (w + k + 1) / 2 ^ 48" and "w \<le> 2 ^ 30"
    using e a by (simp_all only: w_def)
  then show ?thesis using k by (simp add: add_divide_distrib)
qed

lemma round_to_double_256th: "round_to_double (1 / 256) = Finite (1 / 256)"
  using round_to_double_exact [of "1 / 256" 1 "- 8"] by (simp add: power_int_minus_divide)

lemma round_half_even_0: "round_half_even 0 = 0"
  using round_half_even_of_int [of 0] by simp

lemma round_half_even_25_64: "round_half_even (25 / 64) = 0"
  by (simp add: round_half_even_zero_iff)

section \<open>The loop over the rate elements\<close>

lemma fetch_bnr_rates_success:
  assumes "fetch_bnr_rates L now resp = Inr b"
  shows "\<exists>cube. document_cube L resp = Some cube \<and>
           rate_date b = get_attr_default cube ''date'' now \<and>
           parse_rates L (rate_date b) [(''RON'', \<lparr>rate = Finite 1, date = rate_date b\<rparr>)]
             (document_rates L resp) = Inr (exchangeRates b)"
  using assms
  by (auto simp add: fetch_bnr_rates_def fetch_bnr_rates_try_def document_cube_def
        document_rates_def Let_def
      split: http_result.splits if_splits option.splits sum.splits)

lemma parse_rate_cases:
  assumes "parse_rate L d ex e = Inr ex'"
  shows "\<exists>V M. published_value L e = Some V \<and> multiplier_of L e = Some M \<and>
           ((\<exists>c r. writes_code L c e \<and> py_truediv_int V M = Inr r \<and>
                 ex' = AList.update c \<lparr>rate = r, date = d\<rparr> ex)
            \<or> ((\<forall>c. \<not> writes_code L c e) \<and> ex' = ex))"
  using assms
  by (auto simp add: parse_rate_def published_value_def multiplier_of_def writes_code_def Let_def
      split: option.splits if_splits sum.splits)

lemma parse_rate_raises: "(\<exists>err. parse_rate L d ex e = Inl err) \<longleftrightarrow> raises L e"
  by (auto simp add: parse_rate_def raises_def published_value_def multiplier_of_def Let_def
      split: option.splits sum.splits)

lemma parse_rates_raises:
  "(\<exists>err. parse_rates L d ex es = Inl err) \<longleftrightarrow> (\<exists>e\<in>set es. raises L e)"
proof (induction es arbitrary: ex)
  case Nil
  then show ?case by simp
next
  case (Cons x xs)
  show ?case
  proof (cases "parse_rate L d ex x")
    case (Inl err)
    then have "raises L x" using parse_rate_raises by blast
    then show ?thesis using Inl by simp
  next
    case (Inr ex')
    then have "\<not> raises L x" using parse_rate_raises [of L d ex x] by simp
    then show ?thesis using Cons.IH [of ex'] Inr by simp
  qed
qed

lemma parse_rates_append:
  "parse_rates L d ex (xs @ ys) =
     (case parse_rates L d ex xs of Inl err \<Rightarrow> Inl err | Inr ex' \<Rightarrow> parse_rates L d ex' ys)"
  by (induction xs arbitrary: ex) (auto split: sum.splits)

lemma parse_rates_keeps:
  assumes "parse_rates L d ex es = Inr ex'" and "\<forall>e\<in>set es. \<not> writes_code L c e"
  shows "map_of ex' c = map_of ex c"
  using assms
proof (induction es arbitrary: ex)
  case Nil
  then show ?case by simp
next
  case (Cons x xs)
  from Cons.prems(1) obtain ex1 where 1: "parse_rate L d ex x = Inr ex1"
    and 2: "parse_rates L d ex1 xs = Inr ex'"
    by (auto split: sum.splits)
  have "map_of ex1 c = map_of ex c"
    using parse_rate_cases [OF 1] Cons.prems(2) by (auto simp add: update_conv')
  then show ?case using Cons.IH [OF 2] Cons.prems(2) by simp
qed

lemma parse_rates_origin:
  assumes "parse_rates L d ex es = Inr ex'" and "map_of ex' c = Some en"
  shows "map_of ex c = Some en \<or>
         (\<exists>e\<in>set es. \<exists>V M r. writes_code L c e \<and> published_value L e = Some V \<and>
             multiplier_of L e = Some M \<and> py_truediv_int V M = Inr r \<and>
             en = \<lparr>rate = r, date = d\<rparr>)"
  using assms
proof (induction es arbitrary: ex)
  case Nil
  then show ?case by simp
next
  case (Cons x xs)
  from Cons.prems(1) obtain ex1 where 1: "parse_rate L d ex x = Inr ex1"
    and 2: "parse_rates L d ex1 xs = Inr ex'"
    by (auto split: sum.splits)
  from Cons.IH [OF 2 Cons.prems(2)] show ?case
  proof
    assume m: "map_of ex1 c = Some en"
    from parse_rate_cases [OF 1] obtain V M where V: "published_value L x = Some V"
      and M: "multiplier_of L x = Some M"
      and alt: "(\<exists>c' r. writes_code L c' x \<and> py_truediv_int V M = Inr r \<and>
                 ex1 = AList.update c' \<lparr>rate = r, date = d\<rparr> ex)
            \<or> ((\<forall>c'. \<not> writes_code L c' x) \<and> ex1 = ex)"
      by blast
    from alt show ?thesis
    proof
      assume "\<exists>c' r. writes_code L c' x \<and> py_truediv_int V M = Inr r \<and>
                 ex1 = AList.update c' \<lparr>rate = r, date = d\<rparr> ex"
      then obtain c' r where w: "writes_code L c' x" and r: "py_truediv_int V M = Inr r"
        and ex1: "ex1 = AList.update c' \<lparr>rate = r, date = d\<rparr> ex" by blast
      show ?thesis
      proof (cases "c' = c")
        case True
        then have "en = \<lparr>rate = r, date = d\<rparr>" using m ex1 by (simp add: update_conv')
        then show ?thesis using w r V M True by auto
      next
        case False
        then have "map_of ex c = Some en" using m ex1 by (simp add: update_conv')
        then show ?thesis by simp
      qed
    next
      assume "(\<forall>c'. \<not> writes_code L c' x) \<and> ex1 = ex"
      then show ?thesis using m by simp
    qed
  next
    assume "\<exists>e\<in>set xs. \<exists>V M r. writes_code L c e \<and> published_value L e = Some V \<and>
             multiplier_of L e = Some M \<and> py_truediv_int V M = Inr r \<and>
             en = \<lparr>rate = r, date = d\<rparr>"
    then show ?thesis by auto
  qed
qed

lemma writes_code_unique: "writes_code L c e \<Longrightarrow> writes_code L c' e \<Longrightarrow> c' = c"
  by (simp add: writes_code_def)

lemma parse_rates_distinct:
  "parse_rates L d ex es = Inr ex' \<Longrightarrow> distinct (map fst ex) \<Longrightarrow> distinct (map fst ex')"
proof (induction es arbitrary: ex)
  case Nil
  then show ?case by simp
next
  case (Cons x xs)
  from Cons.prems(1) obtain ex1 where 1: "parse_rate L d ex x = Inr ex1"
    and 2: "parse_rates L d ex1 xs = Inr ex'"
    by (auto split: sum.splits)
  have "distinct (map fst ex1)"
    using parse_rate_cases [OF 1] Cons.prems(2) by (auto simp add: distinct_update)
  then show ?case using Cons.IH [OF 2] by simp
qed

lemma fetch_bnr_rates_distinct:
  assumes "fetch_bnr_rates L now resp = Inr data"
  shows "distinct (map fst (exchangeRates data))"
proof -
  from fetch_bnr_rates_success [OF assms]
  have "parse_rates L (rate_date data) [(''RON'', \<lparr>rate = Finite 1, date = rate_date data\<rparr>)]
          (document_rates L resp) = Inr (exchangeRates data)"
    by blast
  then show ?thesis by (rule parse_rates_distinct) simp
qed

lemma parse_rates_nonempty:
  "parse_rates L d ex es = Inr ex' \<Longrightarrow> ex \<noteq> [] \<Longrightarrow> ex' \<noteq> []"
proof (induction es arbitrary: ex)
  case Nil
  then show ?case by simp
next
  case (Cons x xs)
  from Cons.prems(1) obtain ex1 where 1: "parse_rate L d ex x = Inr ex1"
    and 2: "parse_rates L d ex1 xs = Inr ex'"
    by (auto split: sum.splits)
  have "ex1 \<noteq> []" if "ex1 = AList.update c v ex" for c v
    using that Cons.prems(2) by (cases ex) auto
  then have "ex1 \<noteq> []"
    using parse_rate_cases [OF 1] Cons.prems(2) by blast
  then show ?case using Cons.IH [OF 2] by simp
qed

lemma fetch_bnr_rates_nonempty:
  assumes "fetch_bnr_rates L now resp = Inr data"
  shows "exchangeRates data \<noteq> []"
proof -
  from fetch_bnr_rates_success [OF assms]
  have "parse_rates L (rate_date data) [(''RON'', \<lparr>rate = Finite 1, date = rate_date data\<rparr>)]
          (document_rates L resp) = Inr (exchangeRates data)"
    by blast
  then show ?thesis by (rule parse_rates_nonempty) simp
qed

lemmas fetch_eval =
  fetch_bnr_rates_def fetch_bnr_rates_try_def lib_for_def dataset_def undated_dataset_def
  rate_element_def
  find_elem_def findall_def CubeTag_def RateTag_def get_attr_default_def get_attr_def
  parse_rate_def float_table_def int_table_def is_success_def float_truthy_def
  py_truediv_int_def float_of_int_numeral float_of_int_1 round_to_double_numeral
  round_to_double_0 round_to_double_1 round_to_double_quarter Let_def

lemmas doc_eval =
  document_rates_def document_cube_def lib_for_def dataset_def undated_dataset_def
  rate_element_def find_elem_def
  findall_def CubeTag_def RateTag_def is_success_def writes_code_def published_value_def
  multiplier_of_def get_attr_def get_attr_default_def float_table_def int_table_def
  float_truthy_def

section \<open>The table and the cache policy\<close>

lemma get_cached_rates_None:
  "get_cached_rates lit s d = None \<longleftrightarrow> (\<forall>r\<in>set s. row_date r \<noteq> numeric_affinity lit d)"
  by (auto simp add: get_cached_rates_def Let_def filter_empty_conv)

lemma get_cached_rates_Some:
  "get_cached_rates lit s d = Some m \<Longrightarrow>
     m = rates_of_rows (filter (\<lambda>r. row_date r = numeric_affinity lit d) s)"
  by (auto simp add: get_cached_rates_def Let_def split: if_splits)

lemma max_date_Max: "s \<noteq> [] \<Longrightarrow> max_date s = Some (Max (row_date ` set s))"
proof (induction s)
  case Nil
  then show ?case by simp
next
  case (Cons r rs)
  show ?case
  proof (cases "rs = []")
    case True
    then show ?thesis by simp
  next
    case False
    then have "max_date rs = Some (Max (row_date ` set rs))" using Cons.IH by simp
    moreover have "Max (row_date ` set (r # rs)) = max (row_date r) (Max (row_date ` set rs))"
      using False by (simp add: Max_insert)
    ultimately show ?thesis by simp
  qed
qed

lemma latest_rows_Max:
  assumes "s \<noteq> []"
  shows "latest_rows s = filter (\<lambda>r. row_date r = Max (row_date ` set s)) s"
    and "latest_rows s \<noteq> []"
proof -
  show 1: "latest_rows s = filter (\<lambda>r. row_date r = Max (row_date ` set s)) s"
    using max_date_Max [OF assms] by (simp add: latest_rows_def)
  have "Max (row_date ` set s) \<in> row_date ` set s"
    using assms by (intro Max_in) simp_all
  then show "latest_rows s \<noteq> []"
    unfolding 1 by (auto simp add: filter_empty_conv)
qed

lemma cache_fallback_Nil: "cache_fallback [] = Inl no_rates_available"
  by (simp add: cache_fallback_def latest_rows_def)

lemma cache_fallback_rows:
  assumes "s \<noteq> []"
  shows "cache_fallback s =
           Inr \<lparr>rates = rates_of_rows (filter (\<lambda>r. row_date r = Max (row_date ` set s)) s),
                 rates_date = Max (row_date ` set s), source = ''cache-fallback''\<rparr>"
proof -
  let ?m = "Max (row_date ` set s)"
  obtain row rest where l: "latest_rows s = row # rest"
    using latest_rows_Max(2) [OF assms] by (cases "latest_rows s") auto
  have f: "filter (\<lambda>r. row_date r = ?m) s = row # rest"
    using latest_rows_Max(1) [OF assms] l by simp
  have "row \<in> set (filter (\<lambda>r. row_date r = ?m) s)"
    unfolding f by simp
  then have "row_date row = ?m" by simp
  then show ?thesis
    unfolding f using l by (simp add: cache_fallback_def)
qed

lemma fold_rates_lookup:
  "fold (\<lambda>row rates. rates(currency_code row \<mapsto> row_rate row)) rows m c =
     (case List.find (\<lambda>r. currency_code r = c) (rev rows) of
        None \<Rightarrow> m c | Some r \<Rightarrow> Some (row_rate r))"
  by (induction rows rule: rev_induct) simp_all

lemma find_unique_key:
  "distinct (map f xs) \<Longrightarrow> r \<in> set xs \<Longrightarrow> List.find (\<lambda>x. f x = f r) xs = Some r"
  by (induction xs) force+

lemma rates_of_rows_unique:
  assumes "distinct (map currency_code rows)" and "r \<in> set rows"
  shows "rates_of_rows rows (currency_code r) = Some (row_rate r)"
proof -
  have "distinct (map currency_code (rev rows))" and "r \<in> set (rev rows)"
    using assms by (simp_all add: rev_map [symmetric])
  then have "List.find (\<lambda>x. currency_code x = currency_code r) (rev rows) = Some r"
    by (rule find_unique_key)
  then show ?thesis by (simp add: rates_of_rows_def fold_rates_lookup)
qed

lemma unique_rows_codes:
  assumes "unique_rows s"
  shows "distinct (map currency_code (filter (\<lambda>r. row_date r = d) s))"
proof -
  let ?rows = "filter (\<lambda>r. row_date r = d) s"
  have "distinct (map (\<lambda>r. (currency_code r, row_date r)) ?rows)"
    using assms unfolding unique_rows_def by (rule distinct_map_filter)
  then have "distinct ?rows" and "inj_on (\<lambda>r. (currency_code r, row_date r)) (set ?rows)"
    by (simp_all add: distinct_map)
  moreover from this(2) have "inj_on currency_code (set ?rows)"
    by (auto simp add: inj_on_def)
  ultimately show ?thesis by (simp add: distinct_map)
qed

lemma snapshot_rates:
  assumes "unique_rows s" and "r \<in> set s" and "row_date r = d"
  shows "rates_of_rows (filter (\<lambda>r. row_date r = d) s) (currency_code r) = Some (row_rate r)"
  using assms by (intro rates_of_rows_unique unique_rows_codes) simp_all

lemma get_latest_rates_calls:
  "snd (snd (get_latest_rates lit today fetched s)) =
     (if get_cached_rates lit s today = None then 1 else 0)"
  by (auto simp add: get_latest_rates_def Let_def split: option.splits sum.splits)

lemma insert_or_replace_other_date:
  "row_date row \<noteq> t \<Longrightarrow>
     filter (\<lambda>r. row_date r = t) (insert_or_replace s row) = filter (\<lambda>r. row_date r = t) s"
  by (induction s) (auto simp add: insert_or_replace_def)

lemma save_Nil: "save_rates_to_database lit [] d s = Inr s"
  by (simp add: save_rates_to_database_def)

lemma save_Cons:
  "save_rates_to_database lit ((c, en) # rs) d s =
     (if rate en = NaN then Inl IntegrityError
      else save_rates_to_database lit rs d
             (insert_or_replace s
                \<lparr>currency_code = c, row_rate = rate en, row_date = numeric_affinity lit d\<rparr>))"
  by (simp add: save_rates_to_database_def)

lemma save_storable:
  "storable rs \<Longrightarrow> \<exists>s'. save_rates_to_database lit rs d s = Inr s'"
proof (induction rs arbitrary: s)
  case Nil
  then show ?case by (simp add: save_Nil)
next
  case (Cons x xs)
  then show ?case by (cases x) (auto simp add: save_Cons storable_def)
qed

lemma save_not_storable:
  "\<not> storable rs \<Longrightarrow> save_rates_to_database lit rs d s = Inl IntegrityError"
proof (induction rs arbitrary: s)
  case Nil
  then show ?case by (simp add: storable_def)
next
  case (Cons x xs)
  then show ?case by (cases x) (auto simp add: save_Cons storable_def)
qed

lemma save_other_date:
  "save_rates_to_database lit rs d s = Inr s' \<Longrightarrow> numeric_affinity lit d \<noteq> t \<Longrightarrow>
     filter (\<lambda>r. row_date r = t) s' = filter (\<lambda>r. row_date r = t) s"
proof (induction rs arbitrary: s)
  case Nil
  then show ?case by (simp add: save_Nil)
next
  case (Cons x xs)
  then show ?case
    by (cases x) (simp add: save_Cons insert_or_replace_other_date split: if_splits)
qed

lemma save_keeps_miss:
  "save_rates_to_database lit rs d s = Inr s' \<Longrightarrow>
   numeric_affinity lit d \<noteq> numeric_affinity lit today \<Longrightarrow>
   get_cached_rates lit s today = None \<Longrightarrow> get_cached_rates lit s' today = None"
  by (simp add: get_cached_rates_def save_other_date)

lemma insert_or_replace_rows:
  "r \<in> set (insert_or_replace s row) \<Longrightarrow> r \<in> set s \<or> r = row"
  by (auto simp add: insert_or_replace_def)

lemma save_rows:
  "save_rates_to_database lit rs d s = Inr s' \<Longrightarrow> r \<in> set s' \<Longrightarrow>
     r \<in> set s \<or> row_date r = numeric_affinity lit d"
proof (induction rs arbitrary: s)
  case Nil
  then show ?case by (simp add: save_Nil)
next
  case (Cons x xs)
  obtain c en where x: "x = (c, en)" by (cases x)
  let ?row = "\<lparr>currency_code = c, row_rate = rate en, row_date = numeric_affinity lit d\<rparr>"
  from Cons.prems(1) have "save_rates_to_database lit xs d (insert_or_replace s ?row) = Inr s'"
    by (simp add: x save_Cons split: if_splits)
  from Cons.IH [OF this Cons.prems(2)]
  have "r \<in> set (insert_or_replace s ?row) \<or> row_date r = numeric_affinity lit d" .
  then show ?case using insert_or_replace_rows by fastforce
qed

lemma save_survives:
  "save_rates_to_database lit rs d s = Inr s' \<Longrightarrow> row \<in> set s \<Longrightarrow>
   currency_code row \<notin> fst ` set rs \<Longrightarrow> row \<in> set s'"
proof (induction rs arbitrary: s)
  case Nil
  then show ?case by (simp add: save_Nil)
next
  case (Cons x xs)
  obtain c en where x: "x = (c, en)" by (cases x)
  let ?row = "\<lparr>currency_code = c, row_rate = rate en, row_date = numeric_affinity lit d\<rparr>"
  from Cons.prems(1) have 1: "save_rates_to_database lit xs d (insert_or_replace s ?row) = Inr s'"
    by (simp add: x save_Cons split: if_splits)
  have 2: "row \<in> set (insert_or_replace s ?row)"
    using Cons.prems x by (simp add: insert_or_replace_def)
  show ?case using Cons.IH [OF 1 2] Cons.prems(3) by simp
qed

lemma save_contains:
  "save_rates_to_database lit rs d s = Inr s' \<Longrightarrow> distinct (map fst rs) \<Longrightarrow>
   (c, en) \<in> set rs \<Longrightarrow>
     \<lparr>currency_code = c, row_rate = rate en, row_date = numeric_affinity lit d\<rparr> \<in> set s'"
proof (induction rs arbitrary: s)
  case Nil
  then show ?case by simp
next
  case (Cons x xs)
  obtain c' en' where x: "x = (c', en')" by (cases x)
  let ?s1 = "insert_or_replace s
               \<lparr>currency_code = c', row_rate = rate en', row_date = numeric_affinity lit d\<rparr>"
  from Cons.prems(1) have step: "save_rates_to_database lit xs d ?s1 = Inr s'"
    by (simp add: x save_Cons split: if_splits)
  show ?case
  proof (cases "(c, en) = x")
    case True
    then have "\<lparr>currency_code = c, row_rate = rate en, row_date = numeric_affinity lit d\<rparr>
                 \<in> set ?s1"
      by (simp add: x insert_or_replace_def)
    moreover have "c \<notin> fst ` set xs" using Cons.prems(2) True x by auto
    ultimately show ?thesis using save_survives [OF step] by simp
  next
    case False
    then have "(c, en) \<in> set xs" using Cons.prems(3) by auto
    then show ?thesis using Cons.IH [OF step] Cons.prems(2) by simp
  qed
qed

lemma get_latest_rates_keeps_miss:
  assumes "get_cached_rates lit s today = None"
    and "\<And>data. fetched = Inr data \<Longrightarrow>
           numeric_affinity lit (rate_date data) \<noteq> numeric_affinity lit today"
  shows "get_cached_rates lit (fst (snd (get_latest_rates lit today fetched s))) today = None"
proof (cases fetched)
  case (Inl err)
  then show ?thesis using assms(1) by (simp add: get_latest_rates_def)
next
  case (Inr data)
  show ?thesis
  proof (cases "save_rates_to_database lit (exchangeRates data) (rate_date data) s")
    case (Inl err)
    then show ?thesis using assms(1) Inr by (simp add: get_latest_rates_def Let_def)
  next
    case save: (Inr s')
    have "get_cached_rates lit s' today = None"
      using save assms(2) [OF Inr] assms(1) by (rule save_keeps_miss)
    then show ?thesis using assms(1) Inr save by (simp add: get_latest_rates_def Let_def)
  qed
qed

lemma fetch_calls_on_miss:
  "get_cached_rates lit s today = None \<Longrightarrow>
   (\<forall>f\<in>set fs. \<forall>data. f = Inr data \<longrightarrow>
      numeric_affinity lit (rate_date data) \<noteq> numeric_affinity lit today) \<Longrightarrow>
   \<forall>n\<in>set (fetch_calls_on lit today fs s). n = 1"
proof (induction fs arbitrary: s)
  case Nil
  then show ?case by simp
next
  case (Cons f fs)
  obtain result s' n where g: "get_latest_rates lit today f s = (result, s', n)"
    by (cases "get_latest_rates lit today f s") auto
  have n: "n = 1"
    using get_latest_rates_calls [of lit today f s] Cons.prems(1) g by simp
  have "get_cached_rates lit s' today = None"
    using get_latest_rates_keeps_miss [of lit s today f] Cons.prems g by simp
  then have "\<forall>n\<in>set (fetch_calls_on lit today fs s'). n = 1"
    using Cons.IH Cons.prems(2) by simp
  then show ?case using g n by simp
qed

lemma fetch_calls_on_hit:
  "get_cached_rates lit s today \<noteq> None \<Longrightarrow> \<forall>n\<in>set (fetch_calls_on lit today fs s). n = 0"
proof (induction fs)
  case Nil
  then show ?case by simp
next
  case (Cons f fs)
  then obtain cached where "get_cached_rates lit s today = Some cached" by auto
  then have "get_latest_rates lit today f s =
               (Inr \<lparr>rates = cached, rates_date = Text today, source = ''cache''\<rparr>, s, 0)"
    by (simp add: get_latest_rates_def)
  then show ?case using Cons by simp
qed

lemma convert_currency_zero_division:
  assumes "fst (convert_currency amount from_currency to_currency (Some rs) lit today fetched s)
             = Inl ZeroDivisionError"
  shows "rs to_currency = Some (Finite 0)"
proof -
  have ne: "from_currency \<noteq> to_currency"
    using assms by (auto simp add: convert_currency_def)
  then have l: "lookup_and_convert amount from_currency to_currency rs = Inl ZeroDivisionError"
    using assms by (simp add: convert_currency_def)
  then obtain rate_from rate_to where "rs to_currency = Some rate_to"
    and "convert_with amount rate_from rate_to = Inl ZeroDivisionError"
    by (auto simp add: lookup_and_convert_def rate_not_available_def split: option.splits)
  then show ?thesis
    by (auto simp add: convert_with_def Let_def split: sum.splits dest: py_truediv_Inl)
qed

section \<open>The claims\<close>

subsection \<open>Fallback to the most recent snapshot\<close>




subsection \<open>The only error of the read path\<close>

text \<open>
  Claim C2, as amended. \<^verbatim>\<open>get_latest_rates\<close> raises "No exchange rates available" (the
  \<^verbatim>\<open>NoRatesAvailable\<close> of the specification) exactly when the table has no row at all
  and either the fetch fails or the fetch succeeds with a snapshot that cannot be saved:
  one of its rates is a NaN, which the column \<^verbatim>\<open>rate REAL NOT NULL\<close> refuses. It raises no
  other error: neither the error of \<^verbatim>\<open>fetch_bnr_rates\<close> nor that of the save ever comes
  out of it.
\<close>

theorem get_latest_rates_errors:
  "(fst (get_latest_rates lit today fetched s) = Inl no_rates_available \<longleftrightarrow>
      s = [] \<and>
      ((\<exists>e. fetched = Inl e) \<or>
       (\<exists>data. fetched = Inr data \<and> \<not> storable (exchangeRates data)))) \<and>
   (\<forall>err. fst (get_latest_rates lit today fetched s) = Inl err \<longrightarrow> err = no_rates_available) \<and>
   fst (get_latest_rates lit today (fetch_bnr_rates L now resp) s) \<noteq> Inl fetch_failed \<and>
   fst (get_latest_rates lit today fetched s) \<noteq> Inl IntegrityError"
proof -
  let ?falls = "(\<exists>e. fetched = Inl e) \<or>
       (\<exists>data. fetched = Inr data \<and> \<not> storable (exchangeRates data))"
  have e: "fst (get_latest_rates lit today f s) = Inl err \<longleftrightarrow>
             err = no_rates_available \<and> s = [] \<and>
             ((\<exists>e. f = Inl e) \<or> (\<exists>data. f = Inr data \<and> \<not> storable (exchangeRates data)))"
    for f err
  proof (cases "get_cached_rates lit s today")
    case (Some cached)
    then have "s \<noteq> []" by (auto simp add: get_cached_rates_def)
    then show ?thesis using Some by (simp add: get_latest_rates_def)
  next
    case None
    have fb: "cache_fallback s = Inl err \<longleftrightarrow> err = no_rates_available \<and> s = []"
    proof (cases "s = []")
      case True
      then show ?thesis by (auto simp add: cache_fallback_Nil)
    next
      case False
      then show ?thesis using cache_fallback_rows [OF False] by simp
    qed
    show ?thesis
    proof (cases f)
      case (Inl e)
      then show ?thesis using None fb by (simp add: get_latest_rates_def)
    next
      case (Inr data)
      show ?thesis
      proof (cases "storable (exchangeRates data)")
        case True
        from save_storable [OF True]
        obtain s' where "save_rates_to_database lit (exchangeRates data) (rate_date data) s = Inr s'"
          by blast
        then show ?thesis using None Inr True by (simp add: get_latest_rates_def Let_def)
      next
        case False
        from save_not_storable [OF False]
        have "save_rates_to_database lit (exchangeRates data) (rate_date data) s
                = Inl IntegrityError" .
        then show ?thesis using None Inr False fb by (simp add: get_latest_rates_def Let_def)
      qed
    qed
  qed
  have "fetch_failed \<noteq> no_rates_available" "IntegrityError \<noteq> no_rates_available"
    by (simp_all add: fetch_failed_def no_rates_available_def)
  then show ?thesis using e by blast
qed

text \<open>
  Claim C2 as stated fails on the empty table with a fetch that succeeds: the document
  has the rate \<^verbatim>\<open>nan\<close> for EUR, \<^verbatim>\<open>float\<close> accepts it, the fetch returns a snapshot with a
  NaN rate, the save raises inside the \<^verbatim>\<open>try\<close>, and \<^verbatim>\<open>get_latest_rates\<close> raises "No
  exchange rates available" although the fetch did not fail.
\<close>

theorem get_latest_rates_errors_counterexample:
  "fetch_bnr_rates (lib_for (dataset ''2024-01-15'' [rate_element ''EUR'' None ''nan'']))
     ''2024-01-15'' (Response 200 ''nbrfxrates.xml'')
   = Inr \<lparr>exchangeRates =
            [(''RON'', \<lparr>rate = Finite 1, date = ''2024-01-15''\<rparr>),
             (''EUR'', \<lparr>rate = NaN, date = ''2024-01-15''\<rparr>)],
          rate_date = ''2024-01-15''\<rparr> \<and>
   get_latest_rates literal_table ''2024-01-15''
     (fetch_bnr_rates (lib_for (dataset ''2024-01-15'' [rate_element ''EUR'' None ''nan'']))
        ''2024-01-15'' (Response 200 ''nbrfxrates.xml''))
     []
   = (Inl no_rates_available, [], 1)"
proof -
  have f: "fetch_bnr_rates (lib_for (dataset ''2024-01-15'' [rate_element ''EUR'' None ''nan'']))
     ''2024-01-15'' (Response 200 ''nbrfxrates.xml'')
   = Inr \<lparr>exchangeRates =
            [(''RON'', \<lparr>rate = Finite 1, date = ''2024-01-15''\<rparr>),
             (''EUR'', \<lparr>rate = NaN, date = ''2024-01-15''\<rparr>)],
          rate_date = ''2024-01-15''\<rparr>"
    by (simp add: fetch_eval)
  show ?thesis
    unfolding f
    by (simp add: get_latest_rates_def get_cached_rates_def save_rates_to_database_def
          insert_or_replace_def cache_fallback_Nil Let_def)
qed

text \<open>
  The amended claim C2 on the empty table with a failing fetch (the error), and on a
  table with one row and on a successful fetch that can be saved (no error).
\<close>

theorem get_latest_rates_errors_witness:
  "fst (get_latest_rates literal_table ''2024-01-15'' (Inl fetch_failed) [])
     = Inl no_rates_available \<and>
   fst (get_latest_rates literal_table ''2024-01-15'' (Inl fetch_failed) []) \<noteq> Inl fetch_failed \<and>
   fst (get_latest_rates literal_table ''2024-01-15'' (Inl fetch_failed)
          [\<lparr>currency_code = ''RON'', row_rate = Finite 1, row_date = Text ''2024-01-10''\<rparr>])
     \<noteq> Inl no_rates_available \<and>
   storable [(''RON'', \<lparr>rate = Finite 1, date = ''2024-01-15''\<rparr>)] \<and>
   fst (get_latest_rates literal_table ''2024-01-15''
          (Inr \<lparr>exchangeRates = [(''RON'', \<lparr>rate = Finite 1, date = ''2024-01-15''\<rparr>)],
                rate_date = ''2024-01-15''\<rparr>) [])
     \<noteq> Inl no_rates_available"
proof -
  have a: "fst (get_latest_rates literal_table ''2024-01-15'' (Inl fetch_failed) [])
             = Inl no_rates_available"
    using get_latest_rates_errors [of literal_table "''2024-01-15''" "Inl fetch_failed" "[]"]
    by blast
  have b: "fst (get_latest_rates literal_table ''2024-01-15'' (Inl fetch_failed) [])
             \<noteq> Inl fetch_failed"
    unfolding a by (simp add: fetch_failed_def no_rates_available_def)
  have c: "fst (get_latest_rates literal_table ''2024-01-15'' (Inl fetch_failed)
          [\<lparr>currency_code = ''RON'', row_rate = Finite 1, row_date = Text ''2024-01-10''\<rparr>])
     \<noteq> Inl no_rates_available"
    using get_latest_rates_errors [of literal_table "''2024-01-15''" "Inl fetch_failed"
      "[\<lparr>currency_code = ''RON'', row_rate = Finite 1, row_date = Text ''2024-01-10''\<rparr>]"]
    by blast
  have st: "storable [(''RON'', \<lparr>rate = Finite 1, date = ''2024-01-15''\<rparr>)]"
    by (simp add: storable_def)
  have d: "fst (get_latest_rates literal_table ''2024-01-15''
          (Inr \<lparr>exchangeRates = [(''RON'', \<lparr>rate = Finite 1, date = ''2024-01-15''\<rparr>)],
                rate_date = ''2024-01-15''\<rparr>) [])
     \<noteq> Inl no_rates_available"
  proof
    assume "fst (get_latest_rates literal_table ''2024-01-15''
          (Inr \<lparr>exchangeRates = [(''RON'', \<lparr>rate = Finite 1, date = ''2024-01-15''\<rparr>)],
                rate_date = ''2024-01-15''\<rparr>) [])
     = Inl no_rates_available"
    then have "\<not> storable (exchangeRates
          \<lparr>exchangeRates = [(''RON'', \<lparr>rate = Finite 1, date = ''2024-01-15''\<rparr>)],
           rate_date = ''2024-01-15''\<rparr>)"
      using get_latest_rates_errors [of literal_table "''2024-01-15''"
        "Inr \<lparr>exchangeRates = [(''RON'', \<lparr>rate = Finite 1, date = ''2024-01-15''\<rparr>)],
              rate_date = ''2024-01-15''\<rparr>" "[]"]
      by blast
    then show False using st by simp
  qed
  show ?thesis using a b c st d by blast
qed

subsection \<open>The cache hit\<close>

text \<open>
  Claim C3. When the table holds a row dated today, \<^verbatim>\<open>get_latest_rates\<close> returns the
  rates of the rows dated today with today's date and the tag \<^verbatim>\<open>cache\<close>, whatever the
  rate source would have answered: \<^verbatim>\<open>fetch_bnr_rates\<close> is called zero times and the table
  is left as it was. Under the uniqueness constraint of the table the rates returned
  are, code by code, those of today's rows. (A row is dated today when its date is what
  the column holds for today's text: that text itself, as it is written \<^verbatim>\<open>YYYY-MM-DD\<close>.)
\<close>

theorem get_latest_rates_cache_hit:
  assumes "r \<in> set s" and "row_date r = numeric_affinity lit today"
  shows "get_latest_rates lit today fetched s =
           (Inr \<lparr>rates = rates_of_rows (filter (\<lambda>r. row_date r = numeric_affinity lit today) s),
                 rates_date = Text today, source = ''cache''\<rparr>, s, 0) \<and>
         (unique_rows s \<longrightarrow>
            rates_of_rows (filter (\<lambda>r. row_date r = numeric_affinity lit today) s)
              (currency_code r) = Some (row_rate r))"
proof -
  have "get_cached_rates lit s today \<noteq> None"
    using assms by (auto simp add: get_cached_rates_None)
  then obtain cached where c: "get_cached_rates lit s today = Some cached" by auto
  from get_cached_rates_Some [OF c] c
  have "get_latest_rates lit today fetched s =
           (Inr \<lparr>rates = rates_of_rows (filter (\<lambda>r. row_date r = numeric_affinity lit today) s),
                 rates_date = Text today, source = ''cache''\<rparr>, s, 0)"
    by (simp add: get_latest_rates_def)
  then show ?thesis using snapshot_rates [OF _ assms] by blast
qed

text \<open>Claim C3 on a table with a snapshot of today and an older one.\<close>

theorem get_latest_rates_cache_hit_witness:
  "\<lparr>currency_code = ''EUR'', row_rate = Finite 5, row_date = Text ''2024-01-15''\<rparr>
     \<in> set [\<lparr>currency_code = ''EUR'', row_rate = Finite 4, row_date = Text ''2024-01-10''\<rparr>,
            \<lparr>currency_code = ''RON'', row_rate = Finite 1, row_date = Text ''2024-01-15''\<rparr>,
            \<lparr>currency_code = ''EUR'', row_rate = Finite 5, row_date = Text ''2024-01-15''\<rparr>] \<and>
   numeric_affinity literal_table ''2024-01-15'' = Text ''2024-01-15'' \<and>
   unique_rows
     [\<lparr>currency_code = ''EUR'', row_rate = Finite 4, row_date = Text ''2024-01-10''\<rparr>,
      \<lparr>currency_code = ''RON'', row_rate = Finite 1, row_date = Text ''2024-01-15''\<rparr>,
      \<lparr>currency_code = ''EUR'', row_rate = Finite 5, row_date = Text ''2024-01-15''\<rparr>] \<and>
   get_latest_rates literal_table ''2024-01-15'' (Inl fetch_failed)
     [\<lparr>currency_code = ''EUR'', row_rate = Finite 4, row_date = Text ''2024-01-10''\<rparr>,
      \<lparr>currency_code = ''RON'', row_rate = Finite 1, row_date = Text ''2024-01-15''\<rparr>,
      \<lparr>currency_code = ''EUR'', row_rate = Finite 5, row_date = Text ''2024-01-15''\<rparr>]
   = (Inr \<lparr>rates = [''RON'' \<mapsto> Finite 1, ''EUR'' \<mapsto> Finite 5],
           rates_date = Text ''2024-01-15'', source = ''cache''\<rparr>,
      [\<lparr>currency_code = ''EUR'', row_rate = Finite 4, row_date = Text ''2024-01-10''\<rparr>,
       \<lparr>currency_code = ''RON'', row_rate = Finite 1, row_date = Text ''2024-01-15''\<rparr>,
       \<lparr>currency_code = ''EUR'', row_rate = Finite 5, row_date = Text ''2024-01-15''\<rparr>], 0)"
proof -
  have n: "numeric_affinity literal_table ''2024-01-15'' = Text ''2024-01-15''"
    by (simp add: numeric_affinity_def literal_table_def)
  show ?thesis
    using get_latest_rates_cache_hit
      [of "\<lparr>currency_code = ''EUR'', row_rate = Finite 5, row_date = Text ''2024-01-15''\<rparr>"
          "[\<lparr>currency_code = ''EUR'', row_rate = Finite 4, row_date = Text ''2024-01-10''\<rparr>,
            \<lparr>currency_code = ''RON'', row_rate = Finite 1, row_date = Text ''2024-01-15''\<rparr>,
            \<lparr>currency_code = ''EUR'', row_rate = Finite 5, row_date = Text ''2024-01-15''\<rparr>]"
          literal_table "''2024-01-15''" "Inl fetch_failed"]
    by (simp add: n rates_of_rows_def unique_rows_def)
qed

subsection \<open>Conversion with supplied rates\<close>

text \<open>
  Claim C4, as amended. For distinct codes and a supplied rates map: if either code is
  absent the call raises the \<^verbatim>\<open>ValueError\<close> "Exchange rate not available"; if both are present
  and the rate of the target is not zero it returns \<^verbatim>\<open>round(amount * rates[from] / rates[to], 2)\<close>;
  if both are present and the rate of the target is zero it raises \<^verbatim>\<open>ZeroDivisionError\<close>.
  With the rates RON 1.0 and EUR 5.0, 100 RON are 20.0 EUR and 20 EUR are 100.0 RON.
\<close>

theorem convert_currency_supplied:
  assumes "from_currency \<noteq> to_currency"
  shows "(rs from_currency = None \<or> rs to_currency = None \<longrightarrow>
           fst (convert_currency amount from_currency to_currency (Some rs) lit today fetched s)
             = Inl (rate_not_available from_currency to_currency)) \<and>
         (\<forall>rate_from rate_to.
            rs from_currency = Some rate_from \<and> rs to_currency = Some rate_to \<and>
            rate_to \<noteq> Finite 0 \<longrightarrow>
            (\<exists>q. py_truediv (py_mul amount rate_from) rate_to = Inr q \<and>
                 fst (convert_currency amount from_currency to_currency (Some rs) lit today fetched s)
                   = Inr (py_round2 q))) \<and>
         (\<forall>rate_from.
            rs from_currency = Some rate_from \<and> rs to_currency = Some (Finite 0) \<longrightarrow>
            fst (convert_currency amount from_currency to_currency (Some rs) lit today fetched s)
              = Inl ZeroDivisionError) \<and>
         fst (convert_currency (Finite 100) ''RON'' ''EUR''
                (Some [''RON'' \<mapsto> Finite 1, ''EUR'' \<mapsto> Finite 5]) lit today fetched s)
           = Inr (Finite 20) \<and>
         fst (convert_currency (Finite 20) ''EUR'' ''RON''
                (Some [''RON'' \<mapsto> Finite 1, ''EUR'' \<mapsto> Finite 5]) lit today fetched s)
           = Inr (Finite 100)"
proof (intro conjI allI impI)
  assume "rs from_currency = None \<or> rs to_currency = None"
  then show "fst (convert_currency amount from_currency to_currency (Some rs) lit today fetched s)
             = Inl (rate_not_available from_currency to_currency)"
    using assms by (auto simp add: convert_currency_def lookup_and_convert_def split: option.splits)
next
  fix rate_from rate_to
  assume h: "rs from_currency = Some rate_from \<and> rs to_currency = Some rate_to \<and>
            rate_to \<noteq> Finite 0"
  then obtain q where q: "py_truediv (py_mul amount rate_from) rate_to = Inr q"
    using py_truediv_nonzero by blast
  then show "\<exists>q. py_truediv (py_mul amount rate_from) rate_to = Inr q \<and>
                 fst (convert_currency amount from_currency to_currency (Some rs) lit today fetched s)
                   = Inr (py_round2 q)"
    using assms h by (simp add: convert_currency_def lookup_and_convert_def convert_with_def)
next
  fix rate_from
  assume "rs from_currency = Some rate_from \<and> rs to_currency = Some (Finite 0)"
  then show "fst (convert_currency amount from_currency to_currency (Some rs) lit today fetched s)
              = Inl ZeroDivisionError"
    using assms by (simp add: convert_currency_def lookup_and_convert_def convert_with_def)
next
  have "round_to_double 100 = Finite 100" "round_to_double 20 = Finite 20"
    by (simp_all add: round_to_double_numeral)
  moreover have "py_round2 (Finite 20) = Finite 20" "py_round2 (Finite 100) = Finite 100"
    using py_round2_int [of 20] py_round2_int [of 100] by simp_all
  ultimately show "fst (convert_currency (Finite 100) ''RON'' ''EUR''
                (Some [''RON'' \<mapsto> Finite 1, ''EUR'' \<mapsto> Finite 5]) lit today fetched s)
           = Inr (Finite 20)"
    and "fst (convert_currency (Finite 20) ''EUR'' ''RON''
                (Some [''RON'' \<mapsto> Finite 1, ''EUR'' \<mapsto> Finite 5]) lit today fetched s)
           = Inr (Finite 100)"
    by (simp_all add: convert_currency_def lookup_and_convert_def convert_with_def)
qed

text \<open>
  Claim C4 as stated fails: with both codes present and the target rate 0.0 the call
  raises \<^verbatim>\<open>ZeroDivisionError\<close> instead of returning a rounded amount.
\<close>

theorem convert_currency_supplied_counterexample:
  "[''RON'' \<mapsto> Finite 1, ''XXX'' \<mapsto> Finite 0] ''RON'' = Some (Finite 1) \<and>
   [''RON'' \<mapsto> Finite 1, ''XXX'' \<mapsto> Finite 0] ''XXX'' = Some (Finite 0) \<and>
   fst (convert_currency (Finite 1) ''RON'' ''XXX''
          (Some [''RON'' \<mapsto> Finite 1, ''XXX'' \<mapsto> Finite 0]) literal_table ''2024-01-15'' (Inl fetch_failed) [])
     = Inl ZeroDivisionError"
  by (simp add: convert_currency_def lookup_and_convert_def convert_with_def)

text \<open>The amended claim C4 at the rates RON 1.0 and EUR 5.0.\<close>

theorem convert_currency_supplied_witness:
  "''RON'' \<noteq> ''EUR'' \<and>
   [''RON'' \<mapsto> Finite 1, ''EUR'' \<mapsto> Finite 5] ''RON'' = Some (Finite 1) \<and>
   [''RON'' \<mapsto> Finite 1, ''EUR'' \<mapsto> Finite 5] ''EUR'' = Some (Finite 5) \<and>
   Finite 5 \<noteq> Finite 0 \<and>
   fst (convert_currency (Finite 100) ''RON'' ''EUR''
          (Some [''RON'' \<mapsto> Finite 1, ''EUR'' \<mapsto> Finite 5]) literal_table ''2024-01-15'' (Inl fetch_failed) [])
     = Inr (Finite 20) \<and>
   fst (convert_currency (Finite 100) ''RON'' ''USD''
          (Some [''RON'' \<mapsto> Finite 1, ''EUR'' \<mapsto> Finite 5]) literal_table ''2024-01-15'' (Inl fetch_failed) [])
     = Inl (rate_not_available ''RON'' ''USD'')"
  using convert_currency_supplied [of "''RON''" "''EUR''" "[''RON'' \<mapsto> Finite 1, ''EUR'' \<mapsto> Finite 5]"
          "Finite 100" literal_table "''2024-01-15''" "Inl fetch_failed" "[]"]
        convert_currency_supplied [of "''RON''" "''USD''" "[''RON'' \<mapsto> Finite 1, ''EUR'' \<mapsto> Finite 5]"
          "Finite 100" literal_table "''2024-01-15''" "Inl fetch_failed" "[]"]
  by simp

subsection \<open>The rates of a fetched snapshot\<close>

text \<open>
  Claim C5, as amended. The currency entries of the document are the \<^verbatim>\<open>Rate\<close> elements
  below its first \<^verbatim>\<open>Cube\<close>; \<^verbatim>\<open>fetch_bnr_rates\<close> reads no other element. In the snapshot of
  a successful fetch, every \<^verbatim>\<open>Rate\<close> element below the first \<^verbatim>\<open>Cube\<close> that has a
  non-empty currency code and a value \<open>V\<close> other than 0.0, and after which no such element
  below that \<^verbatim>\<open>Cube\<close> has the same code, gives its code the rate \<open>V / M\<close> (float division
  by the multiplier \<open>M\<close>, 1 when the attribute is absent), dated as the snapshot; when no
  such element has the code RON, the snapshot gives RON the rate 1.0; and the snapshot
  has no other entry: each of its entries is RON with the rate 1.0, or the code of such
  an element with the rate \<open>V / M\<close> of that element.
\<close>

theorem fetch_bnr_rates_snapshot:
  assumes ok: "fetch_bnr_rates L now resp = Inr b"
  shows "(\<forall>pre e post c.
            document_rates L resp = pre @ e # post \<and> writes_code L c e \<and>
            (\<forall>e'\<in>set post. \<not> writes_code L c e') \<longrightarrow>
            (\<exists>V M r. published_value L e = Some V \<and> multiplier_of L e = Some M \<and>
               py_truediv_int V M = Inr r \<and>
               map_of (exchangeRates b) c = Some \<lparr>rate = r, date = rate_date b\<rparr>)) \<and>
         ((\<forall>e\<in>set (document_rates L resp). \<not> writes_code L ''RON'' e) \<longrightarrow>
            map_of (exchangeRates b) ''RON'' = Some \<lparr>rate = Finite 1, date = rate_date b\<rparr>) \<and>
         (\<forall>c en. map_of (exchangeRates b) c = Some en \<longrightarrow>
            c = ''RON'' \<and> en = \<lparr>rate = Finite 1, date = rate_date b\<rparr> \<or>
            (\<exists>e\<in>set (document_rates L resp). \<exists>V M r.
               writes_code L c e \<and> published_value L e = Some V \<and> multiplier_of L e = Some M \<and>
               py_truediv_int V M = Inr r \<and> en = \<lparr>rate = r, date = rate_date b\<rparr>))"
proof (intro conjI allI impI)
  let ?init = "[(''RON'', \<lparr>rate = Finite 1, date = rate_date b\<rparr>)]"
  from fetch_bnr_rates_success [OF ok]
  have run: "parse_rates L (rate_date b) ?init (document_rates L resp) = Inr (exchangeRates b)"
    by blast
  {
    assume "\<forall>e\<in>set (document_rates L resp). \<not> writes_code L ''RON'' e"
    from parse_rates_keeps [OF run this]
    show "map_of (exchangeRates b) ''RON'' = Some \<lparr>rate = Finite 1, date = rate_date b\<rparr>"
      by simp
  }
  {
    fix c en
    assume "map_of (exchangeRates b) c = Some en"
    from parse_rates_origin [OF run this]
    show "c = ''RON'' \<and> en = \<lparr>rate = Finite 1, date = rate_date b\<rparr> \<or>
            (\<exists>e\<in>set (document_rates L resp). \<exists>V M r.
               writes_code L c e \<and> published_value L e = Some V \<and> multiplier_of L e = Some M \<and>
               py_truediv_int V M = Inr r \<and> en = \<lparr>rate = r, date = rate_date b\<rparr>)"
      by (auto split: if_splits)
  }
  fix pre e post c
  assume h: "document_rates L resp = pre @ e # post \<and> writes_code L c e \<and>
            (\<forall>e'\<in>set post. \<not> writes_code L c e')"
  from run h obtain ex1 where "parse_rates L (rate_date b) ex1 (e # post) = Inr (exchangeRates b)"
    by (auto simp add: parse_rates_append split: sum.splits)
  then obtain ex2 where e: "parse_rate L (rate_date b) ex1 e = Inr ex2"
    and post: "parse_rates L (rate_date b) ex2 post = Inr (exchangeRates b)"
    by (auto split: sum.splits)
  from parse_rate_cases [OF e] h obtain V M r where V: "published_value L e = Some V"
    and M: "multiplier_of L e = Some M" and r: "py_truediv_int V M = Inr r"
    and ex2: "ex2 = AList.update c \<lparr>rate = r, date = rate_date b\<rparr> ex1"
    using writes_code_unique by blast
  have "map_of (exchangeRates b) c = map_of ex2 c"
    using parse_rates_keeps [OF post] h by blast
  then have "map_of (exchangeRates b) c = Some \<lparr>rate = r, date = rate_date b\<rparr>"
    by (simp add: ex2 update_conv')
  then show "\<exists>V M r. published_value L e = Some V \<and> multiplier_of L e = Some M \<and>
               py_truediv_int V M = Inr r \<and>
               map_of (exchangeRates b) c = Some \<lparr>rate = r, date = rate_date b\<rparr>"
    using V M r by blast
qed

text \<open>
  Claim C5 as stated fails on a document whose first \<^verbatim>\<open>Cube\<close> has the entries EUR 5.0,
  EUR 4.0 and USD 0.0:
  the snapshot gives EUR the rate 4.0, not the 5.0 / 1 of the first entry, and has no
  rate for USD at all.
\<close>

theorem fetch_bnr_rates_snapshot_counterexample:
  "fetch_bnr_rates
     (lib_for (dataset ''2024-01-10''
        [rate_element ''EUR'' None ''5.0'', rate_element ''EUR'' None ''4.0'',
         rate_element ''USD'' None ''0.0'']))
     ''2024-01-15'' (Response 200 ''nbrfxrates.xml'')
   = Inr \<lparr>exchangeRates =
            [(''RON'', \<lparr>rate = Finite 1, date = ''2024-01-10''\<rparr>),
             (''EUR'', \<lparr>rate = Finite 4, date = ''2024-01-10''\<rparr>)],
          rate_date = ''2024-01-10''\<rparr> \<and>
   py_truediv_int (Finite 5) 1 = Inr (Finite 5) \<and>
   py_truediv_int (Finite 0) 1 = Inr (Finite 0)"
  by (simp add: fetch_eval)

text \<open>
  The amended claim C5 on a document with the entries EUR 5.0 and HUF 25.0 per 100: the
  rate of HUF is 25.0 / 100 = 0.25, and RON has the rate 1.0.
\<close>

theorem fetch_bnr_rates_snapshot_witness:
  "fetch_bnr_rates
     (lib_for (dataset ''2024-01-10''
        [rate_element ''EUR'' None ''5.0'', rate_element ''HUF'' (Some ''100'') ''25.0'']))
     ''2024-01-15'' (Response 200 ''nbrfxrates.xml'')
   = Inr \<lparr>exchangeRates =
            [(''RON'', \<lparr>rate = Finite 1, date = ''2024-01-10''\<rparr>),
             (''EUR'', \<lparr>rate = Finite 5, date = ''2024-01-10''\<rparr>),
             (''HUF'', \<lparr>rate = Finite (1 / 4), date = ''2024-01-10''\<rparr>)],
          rate_date = ''2024-01-10''\<rparr> \<and>
   document_rates
     (lib_for (dataset ''2024-01-10''
        [rate_element ''EUR'' None ''5.0'', rate_element ''HUF'' (Some ''100'') ''25.0'']))
     (Response 200 ''nbrfxrates.xml'')
   = [rate_element ''EUR'' None ''5.0''] @ rate_element ''HUF'' (Some ''100'') ''25.0'' # [] \<and>
   writes_code
     (lib_for (dataset ''2024-01-10''
        [rate_element ''EUR'' None ''5.0'', rate_element ''HUF'' (Some ''100'') ''25.0'']))
     ''HUF'' (rate_element ''HUF'' (Some ''100'') ''25.0'') \<and>
   py_truediv_int (Finite 25) 100 = Inr (Finite (1 / 4)) \<and>
   \<not> writes_code
     (lib_for (dataset ''2024-01-10''
        [rate_element ''EUR'' None ''5.0'', rate_element ''HUF'' (Some ''100'') ''25.0'']))
     ''RON'' (rate_element ''EUR'' None ''5.0'') \<and>
   \<not> writes_code
     (lib_for (dataset ''2024-01-10''
        [rate_element ''EUR'' None ''5.0'', rate_element ''HUF'' (Some ''100'') ''25.0'']))
     ''RON'' (rate_element ''HUF'' (Some ''100'') ''25.0'')"
proof -
  let ?L = "lib_for (dataset ''2024-01-10''
        [rate_element ''EUR'' None ''5.0'', rate_element ''HUF'' (Some ''100'') ''25.0''])"
  have f: "fetch_bnr_rates ?L ''2024-01-15'' (Response 200 ''nbrfxrates.xml'')
    = Inr \<lparr>exchangeRates =
            [(''RON'', \<lparr>rate = Finite 1, date = ''2024-01-10''\<rparr>),
             (''EUR'', \<lparr>rate = Finite 5, date = ''2024-01-10''\<rparr>),
             (''HUF'', \<lparr>rate = Finite (1 / 4), date = ''2024-01-10''\<rparr>)],
          rate_date = ''2024-01-10''\<rparr>"
    by (simp add: fetch_eval)
  have d: "py_truediv_int (Finite 25) 100 = Inr (Finite (1 / 4))"
    by (simp add: py_truediv_int_def float_of_int_numeral round_to_double_quarter)
  show ?thesis
    using fetch_bnr_rates_snapshot [OF f] f d
    by (simp add: doc_eval)
qed

subsection \<open>Round trip\<close>

text \<open>
  Claim C6, as amended. Let the amount be finite with \<open>\<bar>amount\<bar> \<le> 2 ^ 40\<close>, and let the
  rates of X and Y be finite and between \<open>1 / 2 ^ 20\<close> and \<open>2 ^ 20\<close>. Then both conversions
  return a finite amount, and \<^verbatim>\<open>convert(convert(amount, X, Y), Y, X)\<close> differs from the
  amount by at most
  \<open>(1 + rates[Y] / rates[X]) / 200 + (\<bar>amount\<bar> + rates[Y] / rates[X] + 1) / 2 ^ 48\<close>: each
  conversion loses up to 0.005 by its rounding to two decimals, the way back multiplies
  the loss of the first one by \<open>rates[Y] / rates[X]\<close>, and the last term bounds the
  roundings of the float operations. In particular the difference is at most 0.01 when
  \<open>100 * rates[Y] \<le> 99 * rates[X]\<close> and \<open>\<bar>amount\<bar> \<le> 2 ^ 30\<close>.
\<close>

theorem convert_currency_round_trip:
  assumes x: "rs X = Some (Finite x)" and y: "rs Y = Some (Finite y)"
    and xlow: "1 / 2 ^ 20 \<le> x" and xhigh: "x \<le> 2 ^ 20"
    and ylow: "1 / 2 ^ 20 \<le> y" and yhigh: "y \<le> 2 ^ 20"
    and a: "\<bar>a\<bar> \<le> 2 ^ 40"
  shows "\<exists>b c.
           fst (convert_currency (Finite a) X Y (Some rs) lit today fetched s) = Inr (Finite b) \<and>
           fst (convert_currency (Finite b) Y X (Some rs) lit' today' fetched' s') = Inr (Finite c) \<and>
           \<bar>c - a\<bar> \<le> (1 + y / x) / 200 + (\<bar>a\<bar> + y / x + 1) / 2 ^ 48 \<and>
           (100 * y \<le> 99 * x \<and> \<bar>a\<bar> \<le> 2 ^ 30 \<longrightarrow> \<bar>c - a\<bar> \<le> 1 / 100)"
proof -
  have ypos: "0 < y" using ylow by (simp add: less_le_trans [rotated])
  have xpos: "0 < x" using xlow by (simp add: less_le_trans [rotated])
  define k where "k = y / x"
  have k: "0 < k" using xpos ypos by (simp add: k_def)
  have cent: "\<bar>c - a\<bar> \<le> 1 / 100"
    if "\<bar>c - a\<bar> \<le> (1 + k) / 200 + (\<bar>a\<bar> + k + 1) / 2 ^ 48"
      and "100 * y \<le> 99 * x \<and> \<bar>a\<bar> \<le> 2 ^ 30" for c
  proof -
    have "k \<le> 99 / 100" using that(2) xpos by (simp add: k_def field_simps)
    moreover have "\<bar>a\<bar> \<le> 2 ^ 30" using that(2) by blast
    ultimately show ?thesis using that(1) by (intro round_trip_cent)
  qed
  have "\<exists>b c.
           fst (convert_currency (Finite a) X Y (Some rs) lit today fetched s) = Inr (Finite b) \<and>
           fst (convert_currency (Finite b) Y X (Some rs) lit' today' fetched' s') = Inr (Finite c) \<and>
           \<bar>c - a\<bar> \<le> (1 + k) / 200 + (\<bar>a\<bar> + k + 1) / 2 ^ 48"
  proof (cases "X = Y")
    case True
    have "0 \<le> (1 + k) / 200 + (\<bar>a\<bar> + k + 1) / 2 ^ 48" using k by simp
    then show ?thesis using True by (simp add: convert_currency_def)
  next
    case ne: False
    have a100: "\<bar>a\<bar> \<le> 2 ^ 100"
    proof -
      have "\<bar>a\<bar> \<le> 2 ^ 40" by (rule a)
      also have "\<dots> \<le> (2 ^ 100 :: rat)" by simp
      finally show ?thesis .
    qed
    from convert_with_error [OF xlow xhigh ylow yhigh a100]
    obtain b where b: "convert_with (Finite a) (Finite x) (Finite y) = Inr (Finite b)"
      and eb: "\<bar>b - a * x / y\<bar> \<le> 1 / 200 + (\<bar>a * x / y\<bar> + 1) / 2 ^ 50" by blast
    have "a * x / y * k = a" using xpos ypos by (simp add: k_def)
    from scaled_back_ratio [OF eb k this]
    have e1: "\<bar>b * k - a\<bar> \<le> k / 200 + (\<bar>a\<bar> + k) / 2 ^ 50" .
    have bk: "b * y / x = b * k" by (simp add: k_def)
    have "x / y \<le> 2 ^ 20 * 2 ^ 20"
    proof -
      have "x / y = x * (1 / y)" by simp
      also have "\<dots> \<le> 2 ^ 20 * 2 ^ 20"
        using xhigh ylow xpos ypos by (intro mult_mono) (simp_all add: field_simps)
      finally show ?thesis .
    qed
    moreover have "\<bar>a * x / y\<bar> = \<bar>a\<bar> * (x / y)"
      using xpos ypos by (simp add: abs_mult)
    ultimately have "\<bar>a * x / y\<bar> \<le> 2 ^ 40 * (2 ^ 20 * 2 ^ 20)"
      using a xpos ypos by (simp only:) (intro mult_mono, simp_all)
    then have "\<bar>a * x / y\<bar> \<le> 2 ^ 80" by simp
    with eb have "\<bar>b\<bar> \<le> 2 ^ 100" by (rule leg_bounded)
    from convert_with_error [OF ylow yhigh xlow xhigh this]
    obtain c where c: "convert_with (Finite b) (Finite y) (Finite x) = Inr (Finite c)"
      and ec: "\<bar>c - b * y / x\<bar> \<le> 1 / 200 + (\<bar>b * y / x\<bar> + 1) / 2 ^ 50" by blast
    have e2: "\<bar>c - b * k\<bar> \<le> 1 / 200 + (\<bar>b * k\<bar> + 1) / 2 ^ 50"
      using ec by (simp only: bk)
    have "\<bar>c - a\<bar> \<le> (1 + k) / 200 + (\<bar>a\<bar> + k + 1) / 2 ^ 48"
      using e1 e2 k by (rule round_trip_bound)
    moreover have "fst (convert_currency (Finite a) X Y (Some rs) lit today fetched s) = Inr (Finite b)"
      using ne x y b by (simp add: convert_currency_def lookup_and_convert_def)
    moreover have "fst (convert_currency (Finite b) Y X (Some rs) lit' today' fetched' s') = Inr (Finite c)"
      using ne x y c by (simp add: convert_currency_def lookup_and_convert_def)
    ultimately show ?thesis by blast
  qed
  then show ?thesis using cent unfolding k_def by blast
qed

text \<open>
  Claim C6 as stated fails with the rates RON 1.0 and XAU 512.0: 2.0 RON are converted
  to 0.00390625 XAU, rounded to 0.0, and 0.0 XAU are 0.0 RON, which is 2.0 away from the
  amount.
\<close>

theorem convert_currency_round_trip_counterexample:
  "[''RON'' \<mapsto> Finite 1, ''XAU'' \<mapsto> Finite 512] ''RON'' = Some (Finite 1) \<and>
   [''RON'' \<mapsto> Finite 1, ''XAU'' \<mapsto> Finite 512] ''XAU'' = Some (Finite 512) \<and>
   fst (convert_currency (Finite 2) ''RON'' ''XAU''
          (Some [''RON'' \<mapsto> Finite 1, ''XAU'' \<mapsto> Finite 512])
          literal_table ''2024-01-15'' (Inl fetch_failed) []) = Inr (Finite 0) \<and>
   fst (convert_currency (Finite 0) ''XAU'' ''RON''
          (Some [''RON'' \<mapsto> Finite 1, ''XAU'' \<mapsto> Finite 512])
          literal_table ''2024-01-15'' (Inl fetch_failed) []) = Inr (Finite 0) \<and>
   \<not> \<bar>0 - 2\<bar> \<le> (1 / 100 :: rat)"
  by (simp add: convert_currency_def lookup_and_convert_def convert_with_def
        round_to_double_numeral round_to_double_0 round_to_double_256th
        round_half_even_0 round_half_even_25_64)

text \<open>
  The amended claim C6 with the rates EUR 5.0 and USD 4.0: 20 EUR are 25.0 USD, and
  25.0 USD are 20.0 EUR again.
\<close>

theorem convert_currency_round_trip_witness:
  "[''EUR'' \<mapsto> Finite 5, ''USD'' \<mapsto> Finite 4] ''EUR'' = Some (Finite 5) \<and>
   [''EUR'' \<mapsto> Finite 5, ''USD'' \<mapsto> Finite 4] ''USD'' = Some (Finite 4) \<and>
   (1 / 2 ^ 20 :: rat) \<le> 5 \<and> (5 :: rat) \<le> 2 ^ 20 \<and>
   (1 / 2 ^ 20 :: rat) \<le> 4 \<and> (4 :: rat) \<le> 2 ^ 20 \<and>
   \<bar>20 :: rat\<bar> \<le> 2 ^ 40 \<and> (100 * 4 :: rat) \<le> 99 * 5 \<and> \<bar>20 :: rat\<bar> \<le> 2 ^ 30 \<and>
   fst (convert_currency (Finite 20) ''EUR'' ''USD''
          (Some [''EUR'' \<mapsto> Finite 5, ''USD'' \<mapsto> Finite 4])
          literal_table ''2024-01-15'' (Inl fetch_failed) []) = Inr (Finite 25) \<and>
   fst (convert_currency (Finite 25) ''USD'' ''EUR''
          (Some [''EUR'' \<mapsto> Finite 5, ''USD'' \<mapsto> Finite 4])
          literal_table ''2024-01-15'' (Inl fetch_failed) []) = Inr (Finite 20) \<and>
   \<bar>20 - 20\<bar> \<le> (1 / 100 :: rat)"
proof -
  have r: "round_to_double 100 = Finite 100" "round_to_double 20 = Finite 20"
    "round_to_double 25 = Finite 25"
    by (simp_all add: round_to_double_numeral)
  have p: "py_round2 (Finite 20) = Finite 20" "py_round2 (Finite 25) = Finite 25"
    using py_round2_int [of 20] py_round2_int [of 25] by simp_all
  have l1: "fst (convert_currency (Finite 20) ''EUR'' ''USD''
          (Some [''EUR'' \<mapsto> Finite 5, ''USD'' \<mapsto> Finite 4])
          literal_table ''2024-01-15'' (Inl fetch_failed) []) = Inr (Finite 25)"
    by (simp add: convert_currency_def lookup_and_convert_def convert_with_def r p
          del: py_round2.simps)
  have l2: "fst (convert_currency (Finite 25) ''USD'' ''EUR''
          (Some [''EUR'' \<mapsto> Finite 5, ''USD'' \<mapsto> Finite 4])
          literal_table ''2024-01-15'' (Inl fetch_failed) []) = Inr (Finite 20)"
    by (simp add: convert_currency_def lookup_and_convert_def convert_with_def r p
          del: py_round2.simps)
  show ?thesis
    using convert_currency_round_trip
      [of "[''EUR'' \<mapsto> Finite 5, ''USD'' \<mapsto> Finite 4]" "''EUR''" 5 "''USD''" 4 20
          literal_table "''2024-01-15''" "Inl fetch_failed" "[]"
          literal_table "''2024-01-15''" "Inl fetch_failed" "[]"]
      l1 l2
    by simp
qed

subsection \<open>Conversion to the same currency\<close>

text \<open>
  Claim C7. For every amount, every currency code \<open>x\<close> and every \<^verbatim>\<open>rates\<close> argument (a map
  without \<open>x\<close>, or no map at all), \<^verbatim>\<open>convert_currency(amount, x, x, rates)\<close> returns the
  amount unchanged: no rate is looked up, nothing is fetched, the table is untouched, and
  no error is raised.
\<close>

theorem convert_currency_same:
  "convert_currency amount x x rates_arg lit today fetched s = (Inr amount, s, 0)"
  by (simp add: convert_currency_def)

subsection \<open>Malformed input\<close>

text \<open>
  Claim C8, as amended. \<^verbatim>\<open>fetch_bnr_rates\<close> fails, with the one exception it raises,
  exactly when the request itself fails; the status is not 2xx; the body is not a
  well-formed document; the document has no \<^verbatim>\<open>Cube\<close> element below its root; or the loop
  raises on a \<^verbatim>\<open>Rate\<close> element below the first \<^verbatim>\<open>Cube\<close>: \<^verbatim>\<open>float\<close> rejects its text (or it
  has no text), \<^verbatim>\<open>int\<close> rejects its multiplier, or the division raises. The function
  does not fail, and goes on with a substitute, in these cases: a \<^verbatim>\<open>Cube\<close> without the
  attribute \<^verbatim>\<open>date\<close> dates the snapshot and all its entries by the clock; a \<^verbatim>\<open>Rate\<close>
  element without a currency code, or with an empty one, is skipped; and a text that
  \<^verbatim>\<open>float\<close> accepts as a NaN or an infinity is stored as a rate that is a NaN or an
  infinity.
\<close>

theorem fetch_bnr_rates_malformed:
  "(fetch_bnr_rates L now resp = Inl fetch_failed \<longleftrightarrow>
      resp = RequestFailed \<or>
      (\<exists>status body. resp = Response status body \<and>
         (status < 200 \<or> 299 < status \<or>
          fromstring L body = None \<or>
          (\<exists>root_elem. fromstring L body = Some root_elem \<and>
             (find_elem root_elem CubeTag = None \<or>
              (\<exists>cube rate_elem. find_elem root_elem CubeTag = Some cube \<and>
                 rate_elem \<in> set (findall cube RateTag) \<and> raises L rate_elem)))))) \<and>
   (\<forall>err. fetch_bnr_rates L now resp = Inl err \<longrightarrow> err = fetch_failed) \<and>
   (\<forall>e. published_value L e = None \<or> multiplier_of L e = None \<longrightarrow> raises L e) \<and>
   (\<forall>cube b. document_cube L resp = Some cube \<and> get_attr cube ''date'' = None \<and>
        fetch_bnr_rates L now resp = Inr b \<longrightarrow>
        rate_date b = now \<and> (\<forall>c en. map_of (exchangeRates b) c = Some en \<longrightarrow> date en = now)) \<and>
   (\<forall>d ex e V M. published_value L e = Some V \<and> multiplier_of L e = Some M \<and>
        (get_attr e ''currency'' = None \<or> get_attr e ''currency'' = Some []) \<longrightarrow>
        parse_rate L d ex e = Inr ex) \<and>
   (\<forall>d ex e c V M m. get_attr e ''currency'' = Some c \<and> c \<noteq> [] \<and>
        published_value L e = Some V \<and> (V = NaN \<or> V = PosInf \<or> V = NegInf) \<and>
        multiplier_of L e = Some M \<and> float_of_int M = Inr (Finite m) \<and> m \<noteq> 0 \<longrightarrow>
        (\<exists>r. parse_rate L d ex e = Inr (AList.update c \<lparr>rate = r, date = d\<rparr> ex) \<and>
             (r = NaN \<or> r = PosInf \<or> r = NegInf) \<and> (V = NaN \<longrightarrow> r = NaN)))"
proof -
  let ?bad = "resp = RequestFailed \<or>
      (\<exists>status body. resp = Response status body \<and>
         (status < 200 \<or> 299 < status \<or>
          fromstring L body = None \<or>
          (\<exists>root_elem. fromstring L body = Some root_elem \<and>
             (find_elem root_elem CubeTag = None \<or>
              (\<exists>cube rate_elem. find_elem root_elem CubeTag = Some cube \<and>
                 rate_elem \<in> set (findall cube RateTag) \<and> raises L rate_elem)))))"
  have tr: "(\<exists>err. fetch_bnr_rates_try L now resp = Inl err) \<longleftrightarrow> ?bad"
  proof (cases resp)
    case RequestFailed
    then show ?thesis by (simp add: fetch_bnr_rates_try_def)
  next
    case (Response status body)
    show ?thesis
    proof (cases "is_success status")
      case False
      then show ?thesis using Response by (auto simp add: fetch_bnr_rates_try_def is_success_def)
    next
      case ok: True
      then have st: "\<not> (status < 200 \<or> 299 < status)" by (auto simp add: is_success_def)
      show ?thesis
      proof (cases "fromstring L body")
        case None
        then show ?thesis using Response ok by (simp add: fetch_bnr_rates_try_def)
      next
        case (Some root_elem)
        show ?thesis
        proof (cases "find_elem root_elem CubeTag")
          case None
          then show ?thesis using Response ok Some by (simp add: fetch_bnr_rates_try_def)
        next
          case cube: (Some cube)
          let ?d = "get_attr_default cube ''date'' now"
          have "(\<exists>err. fetch_bnr_rates_try L now resp = Inl err) \<longleftrightarrow>
                (\<exists>err. parse_rates L ?d [(''RON'', \<lparr>rate = Finite 1, date = ?d\<rparr>)]
                         (findall cube RateTag) = Inl err)"
            using Response ok Some cube
            by (auto simp add: fetch_bnr_rates_try_def Let_def split: sum.splits)
          also have "\<dots> \<longleftrightarrow> (\<exists>rate_elem\<in>set (findall cube RateTag). raises L rate_elem)"
            by (rule parse_rates_raises)
          also have "\<dots> \<longleftrightarrow> ?bad"
            using Response st Some cube by auto
          finally show ?thesis .
        qed
      qed
    qed
  qed
  have "fetch_bnr_rates L now resp = Inl fetch_failed \<longleftrightarrow>
          (\<exists>err. fetch_bnr_rates_try L now resp = Inl err)"
    by (auto simp add: fetch_bnr_rates_def split: sum.splits)
  then have 1: "fetch_bnr_rates L now resp = Inl fetch_failed \<longleftrightarrow> ?bad"
    using tr by simp
  have 2: "\<forall>err. fetch_bnr_rates L now resp = Inl err \<longrightarrow> err = fetch_failed"
    by (auto simp add: fetch_bnr_rates_def split: sum.splits)
  have 3: "\<forall>e. published_value L e = None \<or> multiplier_of L e = None \<longrightarrow> raises L e"
    by (auto simp add: raises_def split: option.splits)
  have 4: "\<forall>cube b. document_cube L resp = Some cube \<and> get_attr cube ''date'' = None \<and>
        fetch_bnr_rates L now resp = Inr b \<longrightarrow>
        rate_date b = now \<and> (\<forall>c en. map_of (exchangeRates b) c = Some en \<longrightarrow> date en = now)"
  proof (intro allI impI)
    fix cube b
    assume h: "document_cube L resp = Some cube \<and> get_attr cube ''date'' = None \<and>
        fetch_bnr_rates L now resp = Inr b"
    then have ok: "fetch_bnr_rates L now resp = Inr b" by blast
    from fetch_bnr_rates_success [OF ok] h
    have d: "rate_date b = now"
      and run: "parse_rates L (rate_date b) [(''RON'', \<lparr>rate = Finite 1, date = rate_date b\<rparr>)]
             (document_rates L resp) = Inr (exchangeRates b)"
      by (auto simp add: get_attr_default_def)
    have "date en = now" if "map_of (exchangeRates b) c = Some en" for c en
      using parse_rates_origin [OF run that] d by (auto split: if_splits)
    then show "rate_date b = now \<and>
        (\<forall>c en. map_of (exchangeRates b) c = Some en \<longrightarrow> date en = now)"
      using d by blast
  qed
  have 5: "\<forall>d ex e V M. published_value L e = Some V \<and> multiplier_of L e = Some M \<and>
        (get_attr e ''currency'' = None \<or> get_attr e ''currency'' = Some []) \<longrightarrow>
        parse_rate L d ex e = Inr ex"
    by (auto simp add: parse_rate_def published_value_def multiplier_of_def Let_def
        split: option.splits)
  have 6: "\<forall>d ex e c V M m. get_attr e ''currency'' = Some c \<and> c \<noteq> [] \<and>
        published_value L e = Some V \<and> (V = NaN \<or> V = PosInf \<or> V = NegInf) \<and>
        multiplier_of L e = Some M \<and> float_of_int M = Inr (Finite m) \<and> m \<noteq> 0 \<longrightarrow>
        (\<exists>r. parse_rate L d ex e = Inr (AList.update c \<lparr>rate = r, date = d\<rparr> ex) \<and>
             (r = NaN \<or> r = PosInf \<or> r = NegInf) \<and> (V = NaN \<longrightarrow> r = NaN))"
    by (auto simp add: parse_rate_def published_value_def multiplier_of_def float_truthy_def
          py_truediv_int_def Let_def
        split: option.splits)
  show ?thesis using 1 2 3 4 5 6 by blast
qed

text \<open>
  Claim C8 as stated fails on two documents that it calls malformed. The \<^verbatim>\<open>Cube\<close> of the
  first has no attribute \<^verbatim>\<open>date\<close>: the fetch succeeds, and the snapshot is dated by the
  clock, 2024-01-15. The second has the text \<^verbatim>\<open>nan\<close> for the rate of EUR: the fetch
  succeeds with a NaN for that rate.
\<close>

theorem fetch_bnr_rates_malformed_counterexample:
  "get_attr (Element CubeTag [] None [rate_element ''EUR'' None ''5.0'']) ''date'' = None \<and>
   document_cube (lib_for (undated_dataset [rate_element ''EUR'' None ''5.0'']))
     (Response 200 ''nbrfxrates.xml'')
   = Some (Element CubeTag [] None [rate_element ''EUR'' None ''5.0'']) \<and>
   fetch_bnr_rates (lib_for (undated_dataset [rate_element ''EUR'' None ''5.0'']))
     ''2024-01-15'' (Response 200 ''nbrfxrates.xml'')
   = Inr \<lparr>exchangeRates =
            [(''RON'', \<lparr>rate = Finite 1, date = ''2024-01-15''\<rparr>),
             (''EUR'', \<lparr>rate = Finite 5, date = ''2024-01-15''\<rparr>)],
          rate_date = ''2024-01-15''\<rparr> \<and>
   fetch_bnr_rates (lib_for (dataset ''2024-01-10'' [rate_element ''EUR'' None ''nan'']))
     ''2024-01-15'' (Response 200 ''nbrfxrates.xml'')
   = Inr \<lparr>exchangeRates =
            [(''RON'', \<lparr>rate = Finite 1, date = ''2024-01-10''\<rparr>),
             (''EUR'', \<lparr>rate = NaN, date = ''2024-01-10''\<rparr>)],
          rate_date = ''2024-01-10''\<rparr>"
proof -
  have 1: "document_cube (lib_for (undated_dataset [rate_element ''EUR'' None ''5.0'']))
     (Response 200 ''nbrfxrates.xml'')
   = Some (Element CubeTag [] None [rate_element ''EUR'' None ''5.0''])"
    by (simp add: document_cube_def lib_for_def undated_dataset_def find_elem_def findall_def
          is_success_def CubeTag_def)
  have 2: "fetch_bnr_rates (lib_for (undated_dataset [rate_element ''EUR'' None ''5.0'']))
     ''2024-01-15'' (Response 200 ''nbrfxrates.xml'')
   = Inr \<lparr>exchangeRates =
            [(''RON'', \<lparr>rate = Finite 1, date = ''2024-01-15''\<rparr>),
             (''EUR'', \<lparr>rate = Finite 5, date = ''2024-01-15''\<rparr>)],
          rate_date = ''2024-01-15''\<rparr>"
    by (simp add: fetch_eval)
  have 3: "fetch_bnr_rates (lib_for (dataset ''2024-01-10'' [rate_element ''EUR'' None ''nan'']))
     ''2024-01-15'' (Response 200 ''nbrfxrates.xml'')
   = Inr \<lparr>exchangeRates =
            [(''RON'', \<lparr>rate = Finite 1, date = ''2024-01-10''\<rparr>),
             (''EUR'', \<lparr>rate = NaN, date = ''2024-01-10''\<rparr>)],
          rate_date = ''2024-01-10''\<rparr>"
    by (simp add: fetch_eval)
  show ?thesis using 1 2 3 by (simp add: get_attr_def)
qed

text \<open>
  The amended claim C8 on a response with status 503, on a body that does not parse, on
  a document without a \<^verbatim>\<open>Cube\<close>, on a rate whose text is \<^verbatim>\<open>n/a\<close>, on a multiplier \<^verbatim>\<open>x\<close>
  (these fail), and on a well-formed document with the rate 5.0 for EUR (this does not).
\<close>

theorem fetch_bnr_rates_malformed_witness:
  "fetch_bnr_rates (lib_for (dataset ''2024-01-10'' [])) ''2024-01-15''
     (Response 503 ''nbrfxrates.xml'') = Inl fetch_failed \<and>
   fromstring (lib_for (dataset ''2024-01-10'' [])) ''<html>'' = None \<and>
   fetch_bnr_rates (lib_for (dataset ''2024-01-10'' [])) ''2024-01-15''
     (Response 200 ''<html>'') = Inl fetch_failed \<and>
   find_elem (Element ''{http://www.bnr.ro/xsd}DataSet'' [] None []) CubeTag = None \<and>
   fetch_bnr_rates (lib_for (Element ''{http://www.bnr.ro/xsd}DataSet'' [] None []))
     ''2024-01-15'' (Response 200 ''nbrfxrates.xml'') = Inl fetch_failed \<and>
   published_value (lib_for (dataset ''2024-01-10'' [rate_element ''EUR'' None ''n/a'']))
     (rate_element ''EUR'' None ''n/a'') = None \<and>
   fetch_bnr_rates (lib_for (dataset ''2024-01-10'' [rate_element ''EUR'' None ''n/a'']))
     ''2024-01-15'' (Response 200 ''nbrfxrates.xml'') = Inl fetch_failed \<and>
   multiplier_of (lib_for (dataset ''2024-01-10'' [rate_element ''EUR'' (Some ''x'') ''5.0'']))
     (rate_element ''EUR'' (Some ''x'') ''5.0'') = None \<and>
   fetch_bnr_rates (lib_for (dataset ''2024-01-10'' [rate_element ''EUR'' (Some ''x'') ''5.0'']))
     ''2024-01-15'' (Response 200 ''nbrfxrates.xml'') = Inl fetch_failed \<and>
   \<not> raises (lib_for (dataset ''2024-01-10'' [rate_element ''EUR'' None ''5.0'']))
       (rate_element ''EUR'' None ''5.0'') \<and>
   fetch_bnr_rates (lib_for (dataset ''2024-01-10'' [rate_element ''EUR'' None ''5.0'']))
     ''2024-01-15'' (Response 200 ''nbrfxrates.xml'') \<noteq> Inl fetch_failed"
proof -
  let ?L0 = "lib_for (dataset ''2024-01-10'' [])"
  let ?L1 = "lib_for (Element ''{http://www.bnr.ro/xsd}DataSet'' [] None [])"
  let ?L2 = "lib_for (dataset ''2024-01-10'' [rate_element ''EUR'' None ''n/a''])"
  let ?L3 = "lib_for (dataset ''2024-01-10'' [rate_element ''EUR'' (Some ''x'') ''5.0''])"
  let ?L4 = "lib_for (dataset ''2024-01-10'' [rate_element ''EUR'' None ''5.0''])"
  have 1: "fetch_bnr_rates ?L0 ''2024-01-15'' (Response 503 ''nbrfxrates.xml'') = Inl fetch_failed"
    using fetch_bnr_rates_malformed [of ?L0 "''2024-01-15''" "Response 503 ''nbrfxrates.xml''"]
    by simp
  have 2: "fetch_bnr_rates ?L0 ''2024-01-15'' (Response 200 ''<html>'') = Inl fetch_failed"
    using fetch_bnr_rates_malformed [of ?L0 "''2024-01-15''" "Response 200 ''<html>''"]
    by (simp add: lib_for_def)
  have 3: "fetch_bnr_rates ?L1 ''2024-01-15'' (Response 200 ''nbrfxrates.xml'') = Inl fetch_failed"
    using fetch_bnr_rates_malformed [of ?L1 "''2024-01-15''" "Response 200 ''nbrfxrates.xml''"]
    by (simp add: lib_for_def find_elem_def findall_def)
  have p: "published_value ?L2 (rate_element ''EUR'' None ''n/a'') = None"
    by (simp add: doc_eval)
  then have r2: "raises ?L2 (rate_element ''EUR'' None ''n/a'')"
    using fetch_bnr_rates_malformed [of ?L2] by blast
  have c2: "fromstring ?L2 ''nbrfxrates.xml''
              = Some (dataset ''2024-01-10'' [rate_element ''EUR'' None ''n/a'']) \<and>
            find_elem (dataset ''2024-01-10'' [rate_element ''EUR'' None ''n/a'']) CubeTag
              = Some (Element CubeTag [(''date'', ''2024-01-10'')] None
                        [rate_element ''EUR'' None ''n/a'']) \<and>
            rate_element ''EUR'' None ''n/a''
              \<in> set (findall (Element CubeTag [(''date'', ''2024-01-10'')] None
                        [rate_element ''EUR'' None ''n/a'']) RateTag)"
    by (simp add: lib_for_def dataset_def find_elem_def findall_def rate_element_def
          CubeTag_def RateTag_def)
  have 4: "fetch_bnr_rates ?L2 ''2024-01-15'' (Response 200 ''nbrfxrates.xml'') = Inl fetch_failed"
    using conjunct1 [OF fetch_bnr_rates_malformed
                       [of ?L2 "''2024-01-15''" "Response 200 ''nbrfxrates.xml''"]]
      r2 c2
    by auto
  have m: "multiplier_of ?L3 (rate_element ''EUR'' (Some ''x'') ''5.0'') = None"
    by (simp add: doc_eval)
  then have r3: "raises ?L3 (rate_element ''EUR'' (Some ''x'') ''5.0'')"
    using fetch_bnr_rates_malformed [of ?L3] by blast
  have c3: "fromstring ?L3 ''nbrfxrates.xml''
              = Some (dataset ''2024-01-10'' [rate_element ''EUR'' (Some ''x'') ''5.0'']) \<and>
            find_elem (dataset ''2024-01-10'' [rate_element ''EUR'' (Some ''x'') ''5.0'']) CubeTag
              = Some (Element CubeTag [(''date'', ''2024-01-10'')] None
                        [rate_element ''EUR'' (Some ''x'') ''5.0'']) \<and>
            rate_element ''EUR'' (Some ''x'') ''5.0''
              \<in> set (findall (Element CubeTag [(''date'', ''2024-01-10'')] None
                        [rate_element ''EUR'' (Some ''x'') ''5.0'']) RateTag)"
    by (simp add: lib_for_def dataset_def find_elem_def findall_def rate_element_def
          CubeTag_def RateTag_def)
  have 5: "fetch_bnr_rates ?L3 ''2024-01-15'' (Response 200 ''nbrfxrates.xml'') = Inl fetch_failed"
    using conjunct1 [OF fetch_bnr_rates_malformed
                       [of ?L3 "''2024-01-15''" "Response 200 ''nbrfxrates.xml''"]]
      r3 c3
    by auto
  have n: "\<not> raises ?L4 (rate_element ''EUR'' None ''5.0'')"
    by (simp add: raises_def doc_eval py_truediv_int_def float_of_int_1 round_to_double_numeral)
  have c4: "fromstring ?L4 ''nbrfxrates.xml''
              = Some (dataset ''2024-01-10'' [rate_element ''EUR'' None ''5.0'']) \<and>
            find_elem (dataset ''2024-01-10'' [rate_element ''EUR'' None ''5.0'']) CubeTag
              = Some (Element CubeTag [(''date'', ''2024-01-10'')] None
                        [rate_element ''EUR'' None ''5.0'']) \<and>
            findall (Element CubeTag [(''date'', ''2024-01-10'')] None
                        [rate_element ''EUR'' None ''5.0'']) RateTag
              = [rate_element ''EUR'' None ''5.0'']"
    by (simp add: lib_for_def dataset_def find_elem_def findall_def rate_element_def
          CubeTag_def RateTag_def)
  have 6: "fetch_bnr_rates ?L4 ''2024-01-15'' (Response 200 ''nbrfxrates.xml'') \<noteq> Inl fetch_failed"
    using conjunct1 [OF fetch_bnr_rates_malformed
                       [of ?L4 "''2024-01-15''" "Response 200 ''nbrfxrates.xml''"]]
      n c4
    by auto
  show ?thesis
    using 1 2 3 4 5 6 p m n by (simp add: lib_for_def find_elem_def findall_def)
qed

subsection \<open>Zero rates\<close>

text \<open>
  Claim C9, as amended. A \<^verbatim>\<open>Rate\<close> element whose value parses to 0.0 leaves the dict as
  it is and raises nothing; RON has the rate 1.0 unless an element writes the code RON.
  A rate of a fetched snapshot is 0.0 only by underflow: it is
  then the quotient of a non-zero value \<open>v\<close> by a non-zero multiplier \<open>m\<close> with
  \<open>\<bar>v / m\<bar> \<le> 1 / 2 ^ 1075\<close>, which rounds to zero. So \<^verbatim>\<open>convert_currency\<close> on the rates of
  a fetched snapshot raises \<^verbatim>\<open>ZeroDivisionError\<close> only for a target currency with such
  an entry.
\<close>

theorem fetch_bnr_rates_nonzero:
  assumes ok: "fetch_bnr_rates L now resp = Inr b"
  shows "(\<forall>d ex e M. published_value L e = Some (Finite 0) \<and> multiplier_of L e = Some M \<longrightarrow>
            parse_rate L d ex e = Inr ex) \<and>
         ((\<forall>e\<in>set (document_rates L resp). \<not> writes_code L ''RON'' e) \<longrightarrow>
            map_of (exchangeRates b) ''RON'' = Some \<lparr>rate = Finite 1, date = rate_date b\<rparr>) \<and>
         (\<forall>c en. map_of (exchangeRates b) c = Some en \<and> rate en = Finite 0 \<longrightarrow>
            (\<exists>e\<in>set (document_rates L resp). \<exists>v M m.
               writes_code L c e \<and> published_value L e = Some (Finite v) \<and> v \<noteq> 0 \<and>
               multiplier_of L e = Some M \<and> float_of_int M = Inr (Finite m) \<and> m \<noteq> 0 \<and>
               \<bar>v / m\<bar> \<le> 1 / 2 ^ 1075)) \<and>
         (\<forall>amount from_currency to_currency lit today fetched s.
            fst (convert_currency amount from_currency to_currency
                   (Some (map_of (map (\<lambda>(currency, d). (currency, rate d)) (exchangeRates b))))
                   lit today fetched s) = Inl ZeroDivisionError \<longrightarrow>
            (\<exists>e\<in>set (document_rates L resp). \<exists>v M m.
               writes_code L to_currency e \<and> published_value L e = Some (Finite v) \<and> v \<noteq> 0 \<and>
               multiplier_of L e = Some M \<and> float_of_int M = Inr (Finite m) \<and> m \<noteq> 0 \<and>
               \<bar>v / m\<bar> \<le> 1 / 2 ^ 1075))"
proof -
  let ?init = "[(''RON'', \<lparr>rate = Finite 1, date = rate_date b\<rparr>)]"
  let ?under = "\<lambda>c. \<exists>e\<in>set (document_rates L resp). \<exists>v M m.
               writes_code L c e \<and> published_value L e = Some (Finite v) \<and> v \<noteq> 0 \<and>
               multiplier_of L e = Some M \<and> float_of_int M = Inr (Finite m) \<and> m \<noteq> 0 \<and>
               \<bar>v / m\<bar> \<le> 1 / 2 ^ 1075"
  from fetch_bnr_rates_success [OF ok]
  have run: "parse_rates L (rate_date b) ?init (document_rates L resp) = Inr (exchangeRates b)"
    by blast
  have skip: "\<forall>d ex e M. published_value L e = Some (Finite 0) \<and> multiplier_of L e = Some M \<longrightarrow>
            parse_rate L d ex e = Inr ex"
    by (auto simp add: parse_rate_def published_value_def multiplier_of_def float_truthy_def
          Let_def split: option.splits)
  have zero: "?under c" if m: "map_of (exchangeRates b) c = Some en" and z: "rate en = Finite 0"
    for c en
  proof -
    from parse_rates_origin [OF run m]
    have "\<exists>e\<in>set (document_rates L resp). \<exists>V M r. writes_code L c e \<and>
             published_value L e = Some V \<and> multiplier_of L e = Some M \<and>
             py_truediv_int V M = Inr r \<and> en = \<lparr>rate = r, date = rate_date b\<rparr>"
      using z by (auto split: if_splits)
    then obtain e V M r where e: "e \<in> set (document_rates L resp)" and w: "writes_code L c e"
      and V: "published_value L e = Some V" and M: "multiplier_of L e = Some M"
      and r: "py_truediv_int V M = Inr r" and en: "en = \<lparr>rate = r, date = rate_date b\<rparr>"
      by blast
    have r0: "py_truediv_int V M = Inr (Finite 0)" using r en z by simp
    have "float_truthy V" using w V by (simp add: writes_code_def)
    from py_truediv_int_zero [OF r0 this] show ?thesis using e w V M by blast
  qed
  have conv: "?under to_currency"
    if c: "fst (convert_currency amount from_currency to_currency
                   (Some (map_of (map (\<lambda>(currency, d). (currency, rate d)) (exchangeRates b))))
                   lit today fetched s) = Inl ZeroDivisionError"
    for amount from_currency to_currency lit today fetched s
  proof -
    let ?rs = "map_of (map (\<lambda>(currency, d). (currency, rate d)) (exchangeRates b))"
    from c have "?rs to_currency = Some (Finite 0)"
      by (rule convert_currency_zero_division)
    then obtain en where "map_of (exchangeRates b) to_currency = Some en" and "rate en = Finite 0"
      by (auto simp add: map_of_map)
    then show ?thesis using zero by blast
  qed
  have base: "map_of (exchangeRates b) ''RON'' = Some \<lparr>rate = Finite 1, date = rate_date b\<rparr>"
    if "\<forall>e\<in>set (document_rates L resp). \<not> writes_code L ''RON'' e"
    using parse_rates_keeps [OF run that] by simp
  show ?thesis using skip base zero conv by blast
qed

text \<open>
  Claim C9 as stated fails on a document with the entry XXX 5e-324 per 2: the value is
  not zero, the quotient 5e-324 / 2 is 0.0, the snapshot holds the rate 0.0 for XXX, and
  converting to XXX with the rates of that fetch divides by zero.
\<close>

theorem fetch_bnr_rates_nonzero_counterexample:
  "fetch_bnr_rates
     (lib_for (dataset ''2024-01-10'' [rate_element ''XXX'' (Some ''2'') ''5e-324'']))
     ''2024-01-15'' (Response 200 ''nbrfxrates.xml'')
   = Inr \<lparr>exchangeRates =
            [(''RON'', \<lparr>rate = Finite 1, date = ''2024-01-10''\<rparr>),
             (''XXX'', \<lparr>rate = Finite 0, date = ''2024-01-10''\<rparr>)],
          rate_date = ''2024-01-10''\<rparr> \<and>
   fst (convert_currency (Finite 1) ''RON'' ''XXX'' None literal_table ''2024-01-15''
          (fetch_bnr_rates
             (lib_for (dataset ''2024-01-10'' [rate_element ''XXX'' (Some ''2'') ''5e-324'']))
             ''2024-01-15'' (Response 200 ''nbrfxrates.xml''))
          [])
     = Inl ZeroDivisionError"
proof -
  have f: "fetch_bnr_rates
     (lib_for (dataset ''2024-01-10'' [rate_element ''XXX'' (Some ''2'') ''5e-324'']))
     ''2024-01-15'' (Response 200 ''nbrfxrates.xml'')
   = Inr \<lparr>exchangeRates =
            [(''RON'', \<lparr>rate = Finite 1, date = ''2024-01-10''\<rparr>),
             (''XXX'', \<lparr>rate = Finite 0, date = ''2024-01-10''\<rparr>)],
          rate_date = ''2024-01-10''\<rparr>"
    by (simp add: fetch_bnr_rates_def fetch_bnr_rates_try_def lib_for_def dataset_def
          rate_element_def find_elem_def findall_def CubeTag_def RateTag_def
          get_attr_default_def get_attr_def parse_rate_def float_table_def int_table_def
          is_success_def float_truthy_def min_subnormal_half min_subnormal_truthy Let_def)
  show ?thesis
    unfolding f
    by (simp add: convert_currency_def get_latest_rates_def get_cached_rates_def
          save_rates_to_database_def lookup_and_convert_def convert_with_def
          round_to_double_1 Let_def)
qed

text \<open>The amended claim C9 on that document.\<close>

theorem fetch_bnr_rates_nonzero_witness:
  "fetch_bnr_rates
     (lib_for (dataset ''2024-01-10'' [rate_element ''XXX'' (Some ''2'') ''5e-324'']))
     ''2024-01-15'' (Response 200 ''nbrfxrates.xml'')
   = Inr \<lparr>exchangeRates =
            [(''RON'', \<lparr>rate = Finite 1, date = ''2024-01-10''\<rparr>),
             (''XXX'', \<lparr>rate = Finite 0, date = ''2024-01-10''\<rparr>)],
          rate_date = ''2024-01-10''\<rparr> \<and>
   document_rates
     (lib_for (dataset ''2024-01-10'' [rate_element ''XXX'' (Some ''2'') ''5e-324'']))
     (Response 200 ''nbrfxrates.xml'') = [rate_element ''XXX'' (Some ''2'') ''5e-324''] \<and>
   writes_code
     (lib_for (dataset ''2024-01-10'' [rate_element ''XXX'' (Some ''2'') ''5e-324'']))
     ''XXX'' (rate_element ''XXX'' (Some ''2'') ''5e-324'') \<and>
   published_value
     (lib_for (dataset ''2024-01-10'' [rate_element ''XXX'' (Some ''2'') ''5e-324'']))
     (rate_element ''XXX'' (Some ''2'') ''5e-324'') = Some (Finite min_subnormal) \<and>
   min_subnormal \<noteq> 0 \<and>
   multiplier_of
     (lib_for (dataset ''2024-01-10'' [rate_element ''XXX'' (Some ''2'') ''5e-324'']))
     (rate_element ''XXX'' (Some ''2'') ''5e-324'') = Some 2 \<and>
   float_of_int 2 = Inr (Finite 2) \<and>
   \<bar>min_subnormal / 2\<bar> \<le> 1 / 2 ^ 1075 \<and>
   parse_rate
     (lib_for (dataset ''2024-01-10'' [rate_element ''XXX'' (Some ''2'') ''5e-324'']))
     ''2024-01-10'' [] (rate_element ''USD'' None ''0.0'') = Inr [] \<and>
   fst (convert_currency (Finite 1) ''RON'' ''XXX''
          (Some [''XXX'' \<mapsto> Finite 0, ''RON'' \<mapsto> Finite 1])
          literal_table ''2024-01-15'' (Inl fetch_failed) []) = Inl ZeroDivisionError"
proof -
  let ?L = "lib_for (dataset ''2024-01-10'' [rate_element ''XXX'' (Some ''2'') ''5e-324''])"
  let ?b = "\<lparr>exchangeRates =
            [(''RON'', \<lparr>rate = Finite 1, date = ''2024-01-10''\<rparr>),
             (''XXX'', \<lparr>rate = Finite 0, date = ''2024-01-10''\<rparr>)],
          rate_date = ''2024-01-10''\<rparr>"
  have f: "fetch_bnr_rates ?L ''2024-01-15'' (Response 200 ''nbrfxrates.xml'') = Inr ?b"
    by (simp add: fetch_bnr_rates_def fetch_bnr_rates_try_def lib_for_def dataset_def
          rate_element_def find_elem_def findall_def CubeTag_def RateTag_def
          get_attr_default_def get_attr_def parse_rate_def float_table_def int_table_def
          is_success_def float_truthy_def min_subnormal_half min_subnormal_truthy Let_def)
  have d: "document_rates ?L (Response 200 ''nbrfxrates.xml'')
             = [rate_element ''XXX'' (Some ''2'') ''5e-324'']"
    by (simp add: document_rates_def document_cube_def lib_for_def dataset_def
          rate_element_def find_elem_def findall_def CubeTag_def RateTag_def is_success_def)
  have e: "writes_code ?L ''XXX'' (rate_element ''XXX'' (Some ''2'') ''5e-324'') \<and>
           published_value ?L (rate_element ''XXX'' (Some ''2'') ''5e-324'')
             = Some (Finite min_subnormal) \<and>
           multiplier_of ?L (rate_element ''XXX'' (Some ''2'') ''5e-324'') = Some 2"
    by (simp add: writes_code_def published_value_def multiplier_of_def lib_for_def
          rate_element_def get_attr_def get_attr_default_def float_table_def int_table_def
          float_truthy_def min_subnormal_truthy)
  have u: "\<bar>min_subnormal / 2\<bar> \<le> 1 / 2 ^ 1075"
    by (simp add: min_subnormal_def)
  have z: "parse_rate ?L ''2024-01-10'' [] (rate_element ''USD'' None ''0.0'') = Inr []"
  proof -
    have "published_value ?L (rate_element ''USD'' None ''0.0'') = Some (Finite 0)"
      by (simp add: published_value_def lib_for_def rate_element_def float_table_def)
    moreover have "multiplier_of ?L (rate_element ''USD'' None ''0.0'') = Some 1"
      by (simp add: multiplier_of_def lib_for_def rate_element_def get_attr_def
            get_attr_default_def int_table_def)
    moreover from fetch_bnr_rates_nonzero [OF f]
    have "\<forall>d ex e M. published_value ?L e = Some (Finite 0) \<and> multiplier_of ?L e = Some M \<longrightarrow>
            parse_rate ?L d ex e = Inr ex"
      by (rule conjunct1)
    ultimately show ?thesis by blast
  qed
  have c: "fst (convert_currency (Finite 1) ''RON'' ''XXX''
          (Some [''XXX'' \<mapsto> Finite 0, ''RON'' \<mapsto> Finite 1])
          literal_table ''2024-01-15'' (Inl fetch_failed) []) = Inl ZeroDivisionError"
    by (simp add: convert_currency_def lookup_and_convert_def convert_with_def)
  show ?thesis
    using f d e u z c min_subnormal_truthy float_of_int_numeral [of "num.Bit0 num.One"]
    by simp
qed

subsection \<open>The date of a fresh fetch\<close>

text \<open>
  Claim C10, as amended. Let the table have no row dated today, and let the fetch
  succeed. The snapshot is dated by the attribute \<^verbatim>\<open>date\<close> of the \<^verbatim>\<open>Cube\<close> whatever the
  clock says, and by the clock when the \<^verbatim>\<open>Cube\<close> has no such attribute. When no rate of
  the snapshot is a NaN, \<^verbatim>\<open>get_latest_rates\<close> returns the snapshot with that date and the
  tag \<^verbatim>\<open>bnr\<close>; every currency of the snapshot is stored in a row whose date is what the
  column makes of that date (the text itself, or the number it denotes when it is a
  numeric literal), and every row that was not in the table before has that date. If
  that is not what the column makes of today's date, the table still has no row dated
  today, and in any sequence of further calls on that day in which no fetch yields a
  snapshot dated today, every call calls \<^verbatim>\<open>fetch_bnr_rates\<close> again; if it is, no further
  call of that day calls \<^verbatim>\<open>fetch_bnr_rates\<close>. When a rate of the snapshot is a NaN, the
  save raises and nothing is stored: \<^verbatim>\<open>get_latest_rates\<close> answers as it does when the fetch
  fails, from the rows of the greatest date or with its error, and further calls fetch
  again.
\<close>

theorem get_latest_rates_live_date:
  assumes miss: "get_cached_rates lit s today = None"
    and ok: "fetch_bnr_rates L now resp = Inr data"
    and cube: "document_cube L resp = Some cube"
  shows "rate_date data = (case get_attr cube ''date'' of None \<Rightarrow> now | Some d \<Rightarrow> d) \<and>
         (storable (exchangeRates data) \<longrightarrow>
            (\<exists>s'. save_rates_to_database lit (exchangeRates data) (rate_date data) s = Inr s' \<and>
               get_latest_rates lit today (fetch_bnr_rates L now resp) s =
                 (Inr \<lparr>rates = map_of (map (\<lambda>(currency, en). (currency, rate en))
                                           (exchangeRates data)),
                       rates_date = Text (rate_date data), source = ''bnr''\<rparr>, s', 1) \<and>
               (\<forall>c en. (c, en) \<in> set (exchangeRates data) \<longrightarrow>
                  \<lparr>currency_code = c, row_rate = rate en,
                   row_date = numeric_affinity lit (rate_date data)\<rparr> \<in> set s') \<and>
               (\<forall>r\<in>set s'. r \<in> set s \<or> row_date r = numeric_affinity lit (rate_date data)) \<and>
               (numeric_affinity lit (rate_date data) \<noteq> numeric_affinity lit today \<longrightarrow>
                  get_cached_rates lit s' today = None \<and>
                  (\<forall>fs. (\<forall>f\<in>set fs. \<forall>data'. f = Inr data' \<longrightarrow>
                           numeric_affinity lit (rate_date data') \<noteq> numeric_affinity lit today) \<longrightarrow>
                        (\<forall>n\<in>set (fetch_calls_on lit today fs s'). n = 1))) \<and>
               (numeric_affinity lit (rate_date data) = numeric_affinity lit today \<longrightarrow>
                  (\<forall>fs. \<forall>n\<in>set (fetch_calls_on lit today fs s'). n = 0)))) \<and>
         (\<not> storable (exchangeRates data) \<longrightarrow>
            get_latest_rates lit today (fetch_bnr_rates L now resp) s = (cache_fallback s, s, 1) \<and>
            (\<forall>fs. (\<forall>f\<in>set fs. \<forall>data'. f = Inr data' \<longrightarrow>
                     numeric_affinity lit (rate_date data') \<noteq> numeric_affinity lit today) \<longrightarrow>
                  (\<forall>n\<in>set (fetch_calls_on lit today fs s). n = 1)))"
proof (intro conjI impI)
  let ?d = "rate_date data"
  let ?result = "Inr \<lparr>rates = map_of (map (\<lambda>(currency, en). (currency, rate en))
                                           (exchangeRates data)),
                       rates_date = Text ?d, source = ''bnr''\<rparr>"
  from fetch_bnr_rates_success [OF ok] cube
  show "?d = (case get_attr cube ''date'' of None \<Rightarrow> now | Some d \<Rightarrow> d)"
    by (auto simp add: get_attr_default_def)
  {
    assume "\<not> storable (exchangeRates data)"
    from save_not_storable [OF this]
    have "save_rates_to_database lit (exchangeRates data) ?d s = Inl IntegrityError" .
    then show "get_latest_rates lit today (fetch_bnr_rates L now resp) s = (cache_fallback s, s, 1)"
      using miss ok by (simp add: get_latest_rates_def Let_def)
    show "\<forall>fs. (\<forall>f\<in>set fs. \<forall>data'. f = Inr data' \<longrightarrow>
                     numeric_affinity lit (rate_date data') \<noteq> numeric_affinity lit today) \<longrightarrow>
                  (\<forall>n\<in>set (fetch_calls_on lit today fs s). n = 1)"
      using fetch_calls_on_miss [OF miss] by blast
  }
  assume "storable (exchangeRates data)"
  from save_storable [OF this]
  obtain s' where save: "save_rates_to_database lit (exchangeRates data) ?d s = Inr s'"
    by blast
  have g: "get_latest_rates lit today (fetch_bnr_rates L now resp) s = (?result, s', 1)"
    using miss ok save by (simp add: get_latest_rates_def Let_def)
  have c: "\<forall>c en. (c, en) \<in> set (exchangeRates data) \<longrightarrow>
            \<lparr>currency_code = c, row_rate = rate en, row_date = numeric_affinity lit ?d\<rparr> \<in> set s'"
    using save_contains [OF save fetch_bnr_rates_distinct [OF ok]] by blast
  have r: "\<forall>r\<in>set s'. r \<in> set s \<or> row_date r = numeric_affinity lit ?d"
    using save_rows [OF save] by blast
  have m: "get_cached_rates lit s' today = None \<and>
           (\<forall>fs. (\<forall>f\<in>set fs. \<forall>data'. f = Inr data' \<longrightarrow>
                    numeric_affinity lit (rate_date data') \<noteq> numeric_affinity lit today) \<longrightarrow>
                 (\<forall>n\<in>set (fetch_calls_on lit today fs s'). n = 1))"
    if other: "numeric_affinity lit ?d \<noteq> numeric_affinity lit today"
  proof -
    have "get_cached_rates lit s' today = None"
      using save other miss by (rule save_keeps_miss)
    then show ?thesis using fetch_calls_on_miss by blast
  qed
  have h: "\<forall>fs. \<forall>n\<in>set (fetch_calls_on lit today fs s'). n = 0"
    if same: "numeric_affinity lit ?d = numeric_affinity lit today"
  proof -
    from fetch_bnr_rates_nonempty [OF ok]
    obtain c en where "(c, en) \<in> set (exchangeRates data)"
      by (cases "exchangeRates data") auto
    with c have "\<lparr>currency_code = c, row_rate = rate en,
                   row_date = numeric_affinity lit ?d\<rparr> \<in> set s'"
      by blast
    moreover have "row_date \<lparr>currency_code = c, row_rate = rate en,
                     row_date = numeric_affinity lit ?d\<rparr> = numeric_affinity lit today"
      using same by simp
    ultimately have "get_cached_rates lit s' today \<noteq> None"
      unfolding get_cached_rates_None by blast
    then show ?thesis using fetch_calls_on_hit by blast
  qed
  show "\<exists>s'. save_rates_to_database lit (exchangeRates data) ?d s = Inr s' \<and>
               get_latest_rates lit today (fetch_bnr_rates L now resp) s = (?result, s', 1) \<and>
               (\<forall>c en. (c, en) \<in> set (exchangeRates data) \<longrightarrow>
                  \<lparr>currency_code = c, row_rate = rate en,
                   row_date = numeric_affinity lit ?d\<rparr> \<in> set s') \<and>
               (\<forall>r\<in>set s'. r \<in> set s \<or> row_date r = numeric_affinity lit ?d) \<and>
               (numeric_affinity lit ?d \<noteq> numeric_affinity lit today \<longrightarrow>
                  get_cached_rates lit s' today = None \<and>
                  (\<forall>fs. (\<forall>f\<in>set fs. \<forall>data'. f = Inr data' \<longrightarrow>
                           numeric_affinity lit (rate_date data') \<noteq> numeric_affinity lit today) \<longrightarrow>
                        (\<forall>n\<in>set (fetch_calls_on lit today fs s'). n = 1))) \<and>
               (numeric_affinity lit ?d = numeric_affinity lit today \<longrightarrow>
                  (\<forall>fs. \<forall>n\<in>set (fetch_calls_on lit today fs s'). n = 0))"
    using save g c r m h by blast
qed

text \<open>
  Claim C10 as stated fails on a document whose \<^verbatim>\<open>Cube\<close> has no attribute \<^verbatim>\<open>date\<close>. On
  2024-01-15 the table holds a row of 2024-01-12 and the fetch succeeds on such a
  document: the date returned and the date of the rows stored is 2024-01-15, the date of
  the clock, and the next call of that day does not fetch.
\<close>

theorem get_latest_rates_live_date_counterexample:
  "get_attr (Element CubeTag [] None [rate_element ''EUR'' None ''5.0'']) ''date'' = None \<and>
   document_cube (lib_for (undated_dataset [rate_element ''EUR'' None ''5.0'']))
     (Response 200 ''nbrfxrates.xml'')
   = Some (Element CubeTag [] None [rate_element ''EUR'' None ''5.0'']) \<and>
   get_latest_rates literal_table ''2024-01-15''
     (fetch_bnr_rates (lib_for (undated_dataset [rate_element ''EUR'' None ''5.0'']))
        ''2024-01-15'' (Response 200 ''nbrfxrates.xml''))
     [\<lparr>currency_code = ''EUR'', row_rate = Finite 4, row_date = Text ''2024-01-12''\<rparr>]
   = (Inr \<lparr>rates = [''EUR'' \<mapsto> Finite 5, ''RON'' \<mapsto> Finite 1],
           rates_date = Text ''2024-01-15'', source = ''bnr''\<rparr>,
      [\<lparr>currency_code = ''EUR'', row_rate = Finite 4, row_date = Text ''2024-01-12''\<rparr>,
       \<lparr>currency_code = ''RON'', row_rate = Finite 1, row_date = Text ''2024-01-15''\<rparr>,
       \<lparr>currency_code = ''EUR'', row_rate = Finite 5, row_date = Text ''2024-01-15''\<rparr>], 1) \<and>
   fetch_calls_on literal_table ''2024-01-15'' [Inl fetch_failed]
     [\<lparr>currency_code = ''EUR'', row_rate = Finite 4, row_date = Text ''2024-01-12''\<rparr>,
      \<lparr>currency_code = ''RON'', row_rate = Finite 1, row_date = Text ''2024-01-15''\<rparr>,
      \<lparr>currency_code = ''EUR'', row_rate = Finite 5, row_date = Text ''2024-01-15''\<rparr>]
   = [0]"
proof -
  have 1: "document_cube (lib_for (undated_dataset [rate_element ''EUR'' None ''5.0'']))
     (Response 200 ''nbrfxrates.xml'')
   = Some (Element CubeTag [] None [rate_element ''EUR'' None ''5.0''])"
    by (simp add: document_cube_def lib_for_def undated_dataset_def find_elem_def findall_def
          is_success_def CubeTag_def)
  have f: "fetch_bnr_rates (lib_for (undated_dataset [rate_element ''EUR'' None ''5.0'']))
     ''2024-01-15'' (Response 200 ''nbrfxrates.xml'')
   = Inr \<lparr>exchangeRates =
            [(''RON'', \<lparr>rate = Finite 1, date = ''2024-01-15''\<rparr>),
             (''EUR'', \<lparr>rate = Finite 5, date = ''2024-01-15''\<rparr>)],
          rate_date = ''2024-01-15''\<rparr>"
    by (simp add: fetch_eval)
  have n: "numeric_affinity literal_table ''2024-01-15'' = Text ''2024-01-15''"
    by (simp add: numeric_affinity_def literal_table_def)
  have 2: "get_latest_rates literal_table ''2024-01-15''
     (fetch_bnr_rates (lib_for (undated_dataset [rate_element ''EUR'' None ''5.0'']))
        ''2024-01-15'' (Response 200 ''nbrfxrates.xml''))
     [\<lparr>currency_code = ''EUR'', row_rate = Finite 4, row_date = Text ''2024-01-12''\<rparr>]
   = (Inr \<lparr>rates = [''EUR'' \<mapsto> Finite 5, ''RON'' \<mapsto> Finite 1],
           rates_date = Text ''2024-01-15'', source = ''bnr''\<rparr>,
      [\<lparr>currency_code = ''EUR'', row_rate = Finite 4, row_date = Text ''2024-01-12''\<rparr>,
       \<lparr>currency_code = ''RON'', row_rate = Finite 1, row_date = Text ''2024-01-15''\<rparr>,
       \<lparr>currency_code = ''EUR'', row_rate = Finite 5, row_date = Text ''2024-01-15''\<rparr>], 1)"
    unfolding f
    by (simp add: get_latest_rates_def get_cached_rates_def save_rates_to_database_def
          insert_or_replace_def n Let_def)
  have 3: "fetch_calls_on literal_table ''2024-01-15'' [Inl fetch_failed]
     [\<lparr>currency_code = ''EUR'', row_rate = Finite 4, row_date = Text ''2024-01-12''\<rparr>,
      \<lparr>currency_code = ''RON'', row_rate = Finite 1, row_date = Text ''2024-01-15''\<rparr>,
      \<lparr>currency_code = ''EUR'', row_rate = Finite 5, row_date = Text ''2024-01-15''\<rparr>]
   = [0]"
    by (simp add: get_latest_rates_def get_cached_rates_def n)
  show ?thesis using 1 2 3 by (simp add: get_attr_def)
qed

text \<open>
  The amended claim C10 on 2024-01-15 with a document dated 2024-01-12: the rows are
  stored under 2024-01-12, and the next two calls of that day both fetch.
\<close>

theorem get_latest_rates_live_date_witness:
  "get_cached_rates literal_table
     [\<lparr>currency_code = ''EUR'', row_rate = Finite 4, row_date = Text ''2024-01-12''\<rparr>]
     ''2024-01-15'' = None \<and>
   fetch_bnr_rates (lib_for (dataset ''2024-01-12'' [rate_element ''EUR'' None ''5.0'']))
     ''2024-01-15'' (Response 200 ''nbrfxrates.xml'')
   = Inr \<lparr>exchangeRates =
            [(''RON'', \<lparr>rate = Finite 1, date = ''2024-01-12''\<rparr>),
             (''EUR'', \<lparr>rate = Finite 5, date = ''2024-01-12''\<rparr>)],
          rate_date = ''2024-01-12''\<rparr> \<and>
   document_cube (lib_for (dataset ''2024-01-12'' [rate_element ''EUR'' None ''5.0'']))
     (Response 200 ''nbrfxrates.xml'')
   = Some (Element CubeTag [(''date'', ''2024-01-12'')] None [rate_element ''EUR'' None ''5.0'']) \<and>
   storable [(''RON'', \<lparr>rate = Finite 1, date = ''2024-01-12''\<rparr>),
             (''EUR'', \<lparr>rate = Finite 5, date = ''2024-01-12''\<rparr>)] \<and>
   numeric_affinity literal_table ''2024-01-12'' \<noteq> numeric_affinity literal_table ''2024-01-15'' \<and>
   get_latest_rates literal_table ''2024-01-15''
     (fetch_bnr_rates (lib_for (dataset ''2024-01-12'' [rate_element ''EUR'' None ''5.0'']))
        ''2024-01-15'' (Response 200 ''nbrfxrates.xml''))
     [\<lparr>currency_code = ''EUR'', row_rate = Finite 4, row_date = Text ''2024-01-12''\<rparr>]
   = (Inr \<lparr>rates = [''EUR'' \<mapsto> Finite 5, ''RON'' \<mapsto> Finite 1],
           rates_date = Text ''2024-01-12'', source = ''bnr''\<rparr>,
      [\<lparr>currency_code = ''RON'', row_rate = Finite 1, row_date = Text ''2024-01-12''\<rparr>,
       \<lparr>currency_code = ''EUR'', row_rate = Finite 5, row_date = Text ''2024-01-12''\<rparr>], 1) \<and>
   fetch_calls_on literal_table ''2024-01-15''
     [fetch_bnr_rates (lib_for (dataset ''2024-01-12'' [rate_element ''EUR'' None ''5.0'']))
        ''2024-01-15'' (Response 200 ''nbrfxrates.xml''),
      Inl fetch_failed]
     [\<lparr>currency_code = ''RON'', row_rate = Finite 1, row_date = Text ''2024-01-12''\<rparr>,
      \<lparr>currency_code = ''EUR'', row_rate = Finite 5, row_date = Text ''2024-01-12''\<rparr>]
   = [1, 1]"
proof -
  let ?L = "lib_for (dataset ''2024-01-12'' [rate_element ''EUR'' None ''5.0''])"
  let ?s = "[\<lparr>currency_code = ''EUR'', row_rate = Finite 4, row_date = Text ''2024-01-12''\<rparr>]"
  let ?cube = "Element CubeTag [(''date'', ''2024-01-12'')] None [rate_element ''EUR'' None ''5.0'']"
  have n: "numeric_affinity literal_table ''2024-01-15'' = Text ''2024-01-15''"
    "numeric_affinity literal_table ''2024-01-12'' = Text ''2024-01-12''"
    by (simp_all add: numeric_affinity_def literal_table_def)
  have miss: "get_cached_rates literal_table ?s ''2024-01-15'' = None"
    by (simp add: get_cached_rates_def n)
  have f: "fetch_bnr_rates ?L ''2024-01-15'' (Response 200 ''nbrfxrates.xml'')
    = Inr \<lparr>exchangeRates =
            [(''RON'', \<lparr>rate = Finite 1, date = ''2024-01-12''\<rparr>),
             (''EUR'', \<lparr>rate = Finite 5, date = ''2024-01-12''\<rparr>)],
          rate_date = ''2024-01-12''\<rparr>"
    by (simp add: fetch_eval)
  have cube: "document_cube ?L (Response 200 ''nbrfxrates.xml'') = Some ?cube"
    by (simp add: document_cube_def lib_for_def dataset_def find_elem_def findall_def
          is_success_def CubeTag_def)
  have st: "storable [(''RON'', \<lparr>rate = Finite 1, date = ''2024-01-12''\<rparr>),
                      (''EUR'', \<lparr>rate = Finite 5, date = ''2024-01-12''\<rparr>)]"
    by (simp add: storable_def)
  have other: "numeric_affinity literal_table ''2024-01-12''
                 \<noteq> numeric_affinity literal_table ''2024-01-15''"
    by (simp add: n)
  have s': "save_rates_to_database literal_table
              [(''RON'', \<lparr>rate = Finite 1, date = ''2024-01-12''\<rparr>),
               (''EUR'', \<lparr>rate = Finite 5, date = ''2024-01-12''\<rparr>)] ''2024-01-12'' ?s
            = Inr [\<lparr>currency_code = ''RON'', row_rate = Finite 1, row_date = Text ''2024-01-12''\<rparr>,
                   \<lparr>currency_code = ''EUR'', row_rate = Finite 5, row_date = Text ''2024-01-12''\<rparr>]"
    by (simp add: save_rates_to_database_def insert_or_replace_def n)
  let ?b = "\<lparr>exchangeRates =
            [(''RON'', \<lparr>rate = Finite 1, date = ''2024-01-12''\<rparr>),
             (''EUR'', \<lparr>rate = Finite 5, date = ''2024-01-12''\<rparr>)],
          rate_date = ''2024-01-12''\<rparr>"
  have st': "storable (exchangeRates ?b)"
    using st by simp
  from conjunct1 [OF conjunct2 [OF get_latest_rates_live_date [OF miss f cube]], THEN mp, OF st']
  obtain s1 where a: "save_rates_to_database literal_table (exchangeRates ?b) (rate_date ?b) ?s
                        = Inr s1"
    and b: "get_latest_rates literal_table ''2024-01-15''
              (fetch_bnr_rates ?L ''2024-01-15'' (Response 200 ''nbrfxrates.xml'')) ?s
            = (Inr \<lparr>rates = map_of (map (\<lambda>(currency, en). (currency, rate en))
                                      (exchangeRates ?b)),
                    rates_date = Text (rate_date ?b), source = ''bnr''\<rparr>, s1, 1)"
    by (elim exE conjE) (rule that)
  have "s1 = [\<lparr>currency_code = ''RON'', row_rate = Finite 1, row_date = Text ''2024-01-12''\<rparr>,
              \<lparr>currency_code = ''EUR'', row_rate = Finite 5, row_date = Text ''2024-01-12''\<rparr>]"
    using a s' by simp
  then have g: "get_latest_rates literal_table ''2024-01-15''
     (fetch_bnr_rates ?L ''2024-01-15'' (Response 200 ''nbrfxrates.xml'')) ?s
   = (Inr \<lparr>rates = [''EUR'' \<mapsto> Finite 5, ''RON'' \<mapsto> Finite 1],
           rates_date = Text ''2024-01-12'', source = ''bnr''\<rparr>,
      [\<lparr>currency_code = ''RON'', row_rate = Finite 1, row_date = Text ''2024-01-12''\<rparr>,
       \<lparr>currency_code = ''EUR'', row_rate = Finite 5, row_date = Text ''2024-01-12''\<rparr>], 1)"
    using b by simp
  have c: "fetch_calls_on literal_table ''2024-01-15''
     [fetch_bnr_rates ?L ''2024-01-15'' (Response 200 ''nbrfxrates.xml''), Inl fetch_failed]
     [\<lparr>currency_code = ''RON'', row_rate = Finite 1, row_date = Text ''2024-01-12''\<rparr>,
      \<lparr>currency_code = ''EUR'', row_rate = Finite 5, row_date = Text ''2024-01-12''\<rparr>]
   = [1, 1]"
    unfolding f
    by (simp add: get_latest_rates_def get_cached_rates_def save_rates_to_database_def
          insert_or_replace_def cache_fallback_def latest_rows_def n Let_def)
  show ?thesis
    using miss f cube st other g c by simp
qed

end
